theory Spec2Isabelle
  imports Main "HOL-Library.Word"
begin

unbundle bit_operations_syntax

section \<open>AutoResSwitcher: a shallow embedding of \<^verbatim>\<open>main.py\<close>\<close>

text \<open>
  The program keeps the display in the mode of whichever tracked game is running. The
  embedding follows \<^verbatim>\<open>main.py\<close> function by function and keeps its names.
  Conventions:
  \<^item> a Python \<^verbatim>\<open>str\<close> is a \<^typ>\<open>string\<close>; a \<^typ>\<open>char\<close> stands for a code point below 256,
    so the umlauts of the German messages are single characters (\<open>CHR 0xF6\<close> is o-umlaut);
  \<^item> a Python \<^verbatim>\<open>int\<close> is an \<^typ>\<open>int\<close>; a \<^verbatim>\<open>ctypes.c_uint\<close> field is a \<^typ>\<open>32 word\<close>;
  \<^item> a \<^verbatim>\<open>dict\<close> is an association list in insertion order, read with \<^const>\<open>map_of\<close> and
    written with \<open>AList.update\<close>-style replacement (a new key goes to the end);
  \<^item> an exception is the \<open>Inl\<close> branch of a sum;
  \<^item> the operating system (display API, file system, registry, process list) is a
    parameter of the function that consults it, and the calls a function issues are
    returned as a list.
\<close>

subsection \<open>Python strings\<close>

definition is_upper :: "char \<Rightarrow> bool" where
  "is_upper c = (let n = (of_char c :: nat)
                 in (65 \<le> n \<and> n \<le> 90) \<or> (192 \<le> n \<and> n \<le> 222 \<and> n \<noteq> 215))"

definition char_lower :: "char \<Rightarrow> char" where
  "char_lower c = (if is_upper c then char_of ((of_char c :: nat) + 32) else c)"

text \<open>\<^verbatim>\<open>s.lower()\<close>\<close>
definition str_lower :: "string \<Rightarrow> string" where
  "str_lower s = map char_lower s"

text \<open>Whitespace in the sense of \<^verbatim>\<open>str.strip()\<close> and \<^verbatim>\<open>int()\<close>, below code point 256.\<close>
definition is_space :: "char \<Rightarrow> bool" where
  "is_space c = ((of_char c :: nat) \<in> {9, 10, 11, 12, 13, 28, 29, 30, 31, 32, 133, 160})"

text \<open>\<^verbatim>\<open>s.strip()\<close>\<close>
definition str_strip :: "string \<Rightarrow> string" where
  "str_strip s = rev (dropWhile is_space (rev (dropWhile is_space s)))"

text \<open>\<^verbatim>\<open>s.strip(c)\<close> for a single character \<open>c\<close>\<close>
definition str_strip_char :: "char \<Rightarrow> string \<Rightarrow> string" where
  "str_strip_char c s = rev (dropWhile (\<lambda>x. x = c) (rev (dropWhile (\<lambda>x. x = c) s)))"

text \<open>\<^verbatim>\<open>s.startswith(p)\<close>\<close>
fun startswith :: "string \<Rightarrow> string \<Rightarrow> bool" where
  "startswith s [] = True"
| "startswith [] (p # ps) = False"
| "startswith (c # cs) (p # ps) = (c = p \<and> startswith cs ps)"

text \<open>\<^verbatim>\<open>s.endswith(p)\<close>\<close>
definition endswith :: "string \<Rightarrow> string \<Rightarrow> bool" where
  "endswith s p = startswith (rev s) (rev p)"

text \<open>\<^verbatim>\<open>p in s\<close> for strings: \<open>p\<close> occurs in \<open>s\<close> as a contiguous block.\<close>
fun str_contains :: "string \<Rightarrow> string \<Rightarrow> bool" where
  "str_contains [] p = (p = [])"
| "str_contains (c # cs) p = (startswith (c # cs) p \<or> str_contains cs p)"

text \<open>\<^verbatim>\<open>s.rfind(p)\<close> when \<open>p\<close> occurs in \<open>s\<close>: the index of the last occurrence.\<close>
fun str_rfind :: "string \<Rightarrow> string \<Rightarrow> nat option" where
  "str_rfind [] p = (if p = [] then Some 0 else None)"
| "str_rfind (c # cs) p =
     (case str_rfind cs p of
        Some i \<Rightarrow> Some (Suc i)
      | None \<Rightarrow> if startswith (c # cs) p then Some 0 else None)"

text \<open>\<^verbatim>\<open>s.count(c)\<close> for a single character\<close>
definition str_count :: "string \<Rightarrow> char \<Rightarrow> nat" where
  "str_count s c = length (filter (\<lambda>x. x = c) s)"

subsection \<open>Python integers and their text\<close>

definition digit_char :: "nat \<Rightarrow> char" where
  "digit_char d = ''0123456789'' ! d"

text \<open>\<^verbatim>\<open>str(n)\<close> for \<open>n \<ge> 0\<close>\<close>
fun str_nat :: "nat \<Rightarrow> string" where
  "str_nat n = (if n < 10 then [digit_char n] else str_nat (n div 10) @ [digit_char (n mod 10)])"

declare str_nat.simps [simp del]

text \<open>\<^verbatim>\<open>str(i)\<close>\<close>
definition str_int :: "int \<Rightarrow> string" where
  "str_int i = (if i < 0 then CHR ''-'' # str_nat (nat (- i)) else str_nat (nat i))"

definition is_digit :: "char \<Rightarrow> bool" where
  "is_digit c = (let n = (of_char c :: nat) in 48 \<le> n \<and> n \<le> 57)"

definition digit_val :: "char \<Rightarrow> nat" where
  "digit_val c = (of_char c :: nat) - 48"

text \<open>
  The digits of a decimal literal as \<^verbatim>\<open>int()\<close> reads them: groups of digits separated by
  single underscores. The flag says whether the previous character was a digit.
\<close>
fun parse_digits :: "bool \<Rightarrow> nat \<Rightarrow> string \<Rightarrow> nat option" where
  "parse_digits prev acc [] = (if prev then Some acc else None)"
| "parse_digits prev acc (c # cs) =
     (if is_digit c then parse_digits True (acc * 10 + digit_val c) cs
      else if c = CHR ''_'' \<and> prev then parse_digits False acc cs
      else None)"

text \<open>\<^verbatim>\<open>int(s)\<close> for a string: \<open>None\<close> is \<^verbatim>\<open>ValueError\<close>.\<close>
definition int_of_str :: "string \<Rightarrow> int option" where
  "int_of_str s =
     (case str_strip s of
        [] \<Rightarrow> None
      | c # cs \<Rightarrow>
          if c = CHR ''-'' then map_option (\<lambda>n. - int n) (parse_digits False 0 cs)
          else if c = CHR ''+'' then map_option int (parse_digits False 0 cs)
          else map_option int (parse_digits False 0 (c # cs)))"

subsection \<open>Exceptions\<close>

datatype exn = OSError string | ValueError string | TypeError

subsection \<open>Windows display API\<close>

definition CDS_UPDATEREGISTRY :: "32 word" where "CDS_UPDATEREGISTRY = 0x01"
definition CDS_TEST :: "32 word" where "CDS_TEST = 0x02"
definition DISP_CHANGE_SUCCESSFUL :: int where "DISP_CHANGE_SUCCESSFUL = 0"
definition DM_PELSWIDTH :: "32 word" where "DM_PELSWIDTH = 0x80000"
definition DM_PELSHEIGHT :: "32 word" where "DM_PELSHEIGHT = 0x100000"
definition DM_DISPLAYFREQUENCY :: "32 word" where "DM_DISPLAYFREQUENCY = 0x400000"

definition DEFAULT_WIDTH :: int where "DEFAULT_WIDTH = 1920"
definition DEFAULT_HEIGHT :: int where "DEFAULT_HEIGHT = 1080"
definition DEFAULT_REFRESH_HZ :: int where "DEFAULT_REFRESH_HZ = 0"
definition DISCOVERY_SCAN_LIMIT :: nat where "DISCOVERY_SCAN_LIMIT = 500"
definition IMAGES_DIR :: string where "IMAGES_DIR = ''images''"

text \<open>
  The fields of \<^verbatim>\<open>DEVMODEW\<close> that \<^verbatim>\<open>set_resolution\<close> writes. The other fields keep what
  \<^verbatim>\<open>EnumDisplaySettingsW\<close> put there and are not read by the program.
\<close>
record DEVMODEW =
  dmFields :: "32 word"
  dmPelsWidth :: "32 word"
  dmPelsHeight :: "32 word"
  dmDisplayFrequency :: "32 word"

text \<open>
  What \<^verbatim>\<open>user32\<close> answers during one call of \<^verbatim>\<open>set_resolution\<close>:
  \<open>EnumDisplaySettingsW\<close> is the current mode, or \<open>None\<close> when the call returns 0;
  \<open>ChangeDisplaySettingsW dm flags\<close> is the status code for that request.
\<close>
record user32 =
  EnumDisplaySettingsW :: "DEVMODEW option"
  ChangeDisplaySettingsW :: "DEVMODEW \<Rightarrow> 32 word \<Rightarrow> int"

text \<open>A call of \<^verbatim>\<open>user32.ChangeDisplaySettingsW\<close> with its arguments.\<close>
datatype native_call = ChangeDisplaySettings DEVMODEW "32 word"

definition get_current_display_mode :: "user32 \<Rightarrow> exn + DEVMODEW" where
  "get_current_display_mode os =
     (case EnumDisplaySettingsW os of
        None \<Rightarrow> Inl (OSError ''EnumDisplaySettingsW failed'')
      | Some dm \<Rightarrow> Inr dm)"

definition msg_test_failed :: "int \<Rightarrow> string" where
  "msg_test_failed code =
     ''Windows konnte die Aufl'' @ [CHR 0xF6] @ ''sung nicht testen (Code '' @ str_int code @ '').''"

definition msg_apply_failed :: "int \<Rightarrow> string" where
  "msg_apply_failed code =
     ''Windows konnte die Aufl'' @ [CHR 0xF6] @ ''sung nicht setzen (Code '' @ str_int code @ '').''"

text \<open>The mode that \<^verbatim>\<open>set_resolution\<close> requests, built from the current one.\<close>
definition requested_mode :: "DEVMODEW \<Rightarrow> int \<Rightarrow> int \<Rightarrow> int option \<Rightarrow> DEVMODEW" where
  "requested_mode dm0 width height refresh_hz =
     (let dm = dm0\<lparr>dmFields := DM_PELSWIDTH OR DM_PELSHEIGHT,
                    dmPelsWidth := word_of_int width,
                    dmPelsHeight := word_of_int height\<rparr>
      in case refresh_hz of
           None \<Rightarrow> dm
         | Some r \<Rightarrow>
             if r > 0
             then dm\<lparr>dmFields := dmFields dm OR DM_DISPLAYFREQUENCY,
                     dmDisplayFrequency := word_of_int r\<rparr>
             else dm)"

text \<open>
  \<^verbatim>\<open>set_resolution(width, height, refresh_hz)\<close>: the returned pair, and the native change
  calls made, in order. \<open>Inl\<close> is the \<^verbatim>\<open>OSError\<close> of \<^verbatim>\<open>get_current_display_mode\<close>.
\<close>
definition set_resolution ::
  "user32 \<Rightarrow> int \<Rightarrow> int \<Rightarrow> int option \<Rightarrow> exn + ((bool \<times> string) \<times> native_call list)" where
  "set_resolution os width height refresh_hz =
     (case get_current_display_mode os of
        Inl e \<Rightarrow> Inl e
      | Inr dm0 \<Rightarrow>
          let dm = requested_mode dm0 width height refresh_hz;
              res_test = ChangeDisplaySettingsW os dm CDS_TEST
          in if res_test \<noteq> DISP_CHANGE_SUCCESSFUL
             then Inr ((False, msg_test_failed res_test), [ChangeDisplaySettings dm CDS_TEST])
             else
               let res_apply = ChangeDisplaySettingsW os dm CDS_UPDATEREGISTRY
               in if res_apply \<noteq> DISP_CHANGE_SUCCESSFUL
                  then Inr ((False, msg_apply_failed res_apply),
                            [ChangeDisplaySettings dm CDS_TEST,
                             ChangeDisplaySettings dm CDS_UPDATEREGISTRY])
                  else Inr ((True, ''OK''),
                            [ChangeDisplaySettings dm CDS_TEST,
                             ChangeDisplaySettings dm CDS_UPDATEREGISTRY]))"

subsection \<open>JSON values, profiles and the games store\<close>

text \<open>
  The values that \<^verbatim>\<open>json.load\<close> produces: \<^verbatim>\<open>None\<close>, booleans, integers, strings, lists
  and \<^verbatim>\<open>dict\<close>s with string keys (floating-point numbers are outside the model). A profile
  is the \<^verbatim>\<open>dict\<close> stored under a process key; the games store is the \<^verbatim>\<open>dict\<close>
  \<^verbatim>\<open>cfg["games"]\<close> of profiles.
\<close>
datatype jval =
  JNull | JBool bool | JInt int | JStr string | JList "jval list" | JObj "(string \<times> jval) list"

type_synonym profile = "(string \<times> jval) list"
type_synonym games = "(string \<times> profile) list"

text \<open>\<^verbatim>\<open>d[k] = v\<close>: an existing key keeps its place, a new key is appended.\<close>
fun dict_set :: "'k \<Rightarrow> 'v \<Rightarrow> ('k \<times> 'v) list \<Rightarrow> ('k \<times> 'v) list" where
  "dict_set k v [] = [(k, v)]"
| "dict_set k v (p # ps) = (if fst p = k then (k, v) # ps else p # dict_set k v ps)"

text \<open>\<^verbatim>\<open>d.get(k)\<close> on a profile: \<^verbatim>\<open>None\<close> when the key is absent.\<close>
definition dict_get :: "profile \<Rightarrow> string \<Rightarrow> jval" where
  "dict_get d k = (case map_of d k of None \<Rightarrow> JNull | Some v \<Rightarrow> v)"

text \<open>\<^verbatim>\<open>d.get(k, default)\<close>\<close>
definition dict_get_default :: "profile \<Rightarrow> string \<Rightarrow> jval \<Rightarrow> jval" where
  "dict_get_default d k dflt = (case map_of d k of None \<Rightarrow> dflt | Some v \<Rightarrow> v)"

text \<open>\<^verbatim>\<open>d.setdefault(k, v)\<close>, for its effect on \<open>d\<close>\<close>
definition dict_setdefault :: "'k \<Rightarrow> 'v \<Rightarrow> ('k \<times> 'v) list \<Rightarrow> ('k \<times> 'v) list" where
  "dict_setdefault k v d = (case map_of d k of None \<Rightarrow> d @ [(k, v)] | Some _ \<Rightarrow> d)"

text \<open>Truth value of a JSON value, as \<^verbatim>\<open>not x\<close> and \<^verbatim>\<open>x or y\<close> see it.\<close>
fun truthy :: "jval \<Rightarrow> bool" where
  "truthy JNull = False"
| "truthy (JBool b) = b"
| "truthy (JInt i) = (i \<noteq> 0)"
| "truthy (JStr s) = (s \<noteq> [])"
| "truthy (JList xs) = (xs \<noteq> [])"
| "truthy (JObj kvs) = (kvs \<noteq> [])"

text \<open>\<^verbatim>\<open>x == n\<close> for an integer \<open>n\<close>\<close>
fun eq_int :: "jval \<Rightarrow> int \<Rightarrow> bool" where
  "eq_int (JInt i) n = (i = n)"
| "eq_int (JBool b) n = ((if b then 1 else 0) = n)"
| "eq_int _ n = False"

definition hex_digit :: "nat \<Rightarrow> char" where
  "hex_digit d = ''0123456789abcdef'' ! d"

definition is_printable :: "char \<Rightarrow> bool" where
  "is_printable c = (let n = (of_char c :: nat) in (32 \<le> n \<and> n \<le> 126) \<or> (161 \<le> n \<and> n \<noteq> 173))"

definition repr_char :: "char \<Rightarrow> char \<Rightarrow> string" where
  "repr_char q c =
     (if c = q \<or> c = CHR 0x5C then [CHR 0x5C, c]
      else if c = CHR 0x09 then [CHR 0x5C, CHR ''t'']
      else if c = CHR 0x0A then [CHR 0x5C, CHR ''n'']
      else if c = CHR 0x0D then [CHR 0x5C, CHR ''r'']
      else if is_printable c then [c]
      else [CHR 0x5C, CHR ''x'', hex_digit ((of_char c :: nat) div 16),
            hex_digit ((of_char c :: nat) mod 16)])"

text \<open>\<^verbatim>\<open>repr(s)\<close> for a string\<close>
definition py_repr :: "string \<Rightarrow> string" where
  "py_repr s =
     (let q = (if CHR 0x27 \<in> set s \<and> CHR 0x22 \<notin> set s then CHR 0x22 else CHR 0x27)
      in q # concat (map (repr_char q) s) @ [q])"

text \<open>\<^verbatim>\<open>sep.join(xs)\<close>\<close>
fun str_join :: "string \<Rightarrow> string list \<Rightarrow> string" where
  "str_join sep [] = []"
| "str_join sep [x] = x"
| "str_join sep (x # y # ys) = x @ sep @ str_join sep (y # ys)"

text \<open>\<^verbatim>\<open>repr(x)\<close>\<close>
fun repr_val :: "jval \<Rightarrow> string" where
  "repr_val JNull = ''None''"
| "repr_val (JBool b) = (if b then ''True'' else ''False'')"
| "repr_val (JInt i) = str_int i"
| "repr_val (JStr s) = py_repr s"
| "repr_val (JList xs) = ''['' @ str_join '', '' (map repr_val xs) @ '']''"
| "repr_val (JObj kvs) =
     ''{'' @ str_join '', '' (map (\<lambda>kv. py_repr (fst kv) @ '': '' @ repr_val (snd kv)) kvs) @ ''}''"

text \<open>\<^verbatim>\<open>str(x)\<close>\<close>
definition py_str :: "jval \<Rightarrow> string" where
  "py_str x = (case x of JStr s \<Rightarrow> s | _ \<Rightarrow> repr_val x)"

definition msg_invalid_literal :: "string \<Rightarrow> string" where
  "msg_invalid_literal s = ''invalid literal for int() with base 10: '' @ py_repr s"

text \<open>\<^verbatim>\<open>int(s)\<close> for a string, with the exception it raises\<close>
definition int_str :: "string \<Rightarrow> exn + int" where
  "int_str s = (case int_of_str s of
                  None \<Rightarrow> Inl (ValueError (msg_invalid_literal s))
                | Some i \<Rightarrow> Inr i)"

text \<open>\<^verbatim>\<open>int(x)\<close>\<close>
fun py_int :: "jval \<Rightarrow> exn + int" where
  "py_int JNull = Inl TypeError"
| "py_int (JBool b) = Inr (if b then 1 else 0)"
| "py_int (JInt i) = Inr i"
| "py_int (JStr s) = int_str s"
| "py_int (JList xs) = Inl TypeError"
| "py_int (JObj kvs) = Inl TypeError"

text \<open>
  \<^verbatim>\<open>os.path.join(a, b)\<close> on Windows, for \<open>b\<close> a file or directory name (no drive letter,
  not rooted): a separator is put between the two unless \<open>a\<close> is empty, ends in a
  separator, or is a bare drive such as \<^verbatim>\<open>C:\<close>.
\<close>
definition path_join :: "string \<Rightarrow> string \<Rightarrow> string" where
  "path_join a b =
     (if a = [] then b
      else if last a = CHR 0x5C \<or> last a = CHR ''/'' then a @ b
      else if length a = 2 \<and> a ! 1 = CHR '':'' then a @ b
      else a @ [CHR 0x5C] @ b)"

text \<open>The \<^verbatim>\<open>games\<close> entry of \<^verbatim>\<open>default_config()\<close>\<close>
definition default_games :: games where
  "default_games =
     [(''cs2.exe'',
       [(''name'', JStr ''Counter-Strike 2''),
        (''process'', JStr ''cs2.exe''),
        (''width'', JInt 1440),
        (''height'', JInt 1080),
        (''refresh_hz'', JInt 144),
        (''image_path'', JStr (path_join IMAGES_DIR ''cs2.png'')),
        (''exe_path'', JNull),
        (''source'', JStr ''preset'')]),
      (''valorant-win64-shipping.exe'',
       [(''name'', JStr ''Valorant''),
        (''process'', JStr ''VALORANT-Win64-Shipping.exe''),
        (''width'', JInt 1568),
        (''height'', JInt 1080),
        (''refresh_hz'', JInt 144),
        (''image_path'', JStr (path_join IMAGES_DIR ''valorant.png'')),
        (''exe_path'', JNull),
        (''source'', JStr ''preset'')])]"

subsection \<open>Automatic switching\<close>

text \<open>
  \<^verbatim>\<open>App._find_active_game(running)\<close>: the store is walked in insertion order, and the
  first profile whose process name is running decides.
\<close>
fun find_active_game :: "games \<Rightarrow> string set \<Rightarrow> string option" where
  "find_active_game [] running = None"
| "find_active_game ((proc_key, g) # rest) running =
     (let proc = str_lower (py_str (dict_get_default g ''process'' (JStr proc_key)))
      in if proc \<in> running then Some (str_lower proc_key)
         else find_active_game rest running)"

text \<open>A call of \<^verbatim>\<open>set_resolution\<close> with its arguments.\<close>
datatype display_call = SetResolution int int "int option"

text \<open>
  What a step leaves behind: the exception that ended it (if any), the new value of
  \<^verbatim>\<open>self.last_applied_process\<close>, and the display calls it issued.
\<close>
record outcome =
  raised :: "exn option"
  last_applied :: "string option"
  issued :: "display_call list"

text \<open>
  \<^verbatim>\<open>not g\<close> for \<^verbatim>\<open>g = games.get(proc_key)\<close>: the key is absent, or the profile stored
  under it is the empty \<^verbatim>\<open>dict\<close>.
\<close>
fun not_g :: "profile option \<Rightarrow> bool" where
  "not_g None = True"
| "not_g (Some g) = (g = [])"

text \<open>All keys of the store are lowercase: \<^verbatim>\<open>k == k.lower()\<close>.\<close>
definition keys_lowercase :: "games \<Rightarrow> bool" where
  "keys_lowercase games = list_all (\<lambda>kg. str_lower (fst kg) = fst kg) games"

text \<open>
  \<^verbatim>\<open>App._apply_game_resolution_if_needed(proc_key)\<close>. The result of \<^verbatim>\<open>set_resolution\<close>
  is not looked at; only an exception leaves the assignment undone. Writing the log line
  is not modelled.
\<close>
definition apply_game_resolution_if_needed ::
  "user32 \<Rightarrow> games \<Rightarrow> string option \<Rightarrow> string option \<Rightarrow> outcome" where
  "apply_game_resolution_if_needed os games proc_key prev =
     (if proc_key = prev then \<lparr>raised = None, last_applied = prev, issued = []\<rparr>
      else case proc_key of
        None \<Rightarrow>
          (if prev \<noteq> None
           then (case set_resolution os DEFAULT_WIDTH DEFAULT_HEIGHT None of
                   Inl e \<Rightarrow> \<lparr>raised = Some e, last_applied = prev,
                             issued = [SetResolution DEFAULT_WIDTH DEFAULT_HEIGHT None]\<rparr>
                 | Inr _ \<Rightarrow> \<lparr>raised = None, last_applied = None,
                             issued = [SetResolution DEFAULT_WIDTH DEFAULT_HEIGHT None]\<rparr>)
           else \<lparr>raised = None, last_applied = None, issued = []\<rparr>)
      | Some k \<Rightarrow>
          (case map_of games k of
             None \<Rightarrow> \<lparr>raised = None, last_applied = prev, issued = []\<rparr>
           | Some g \<Rightarrow>
               if not_g (Some g) then \<lparr>raised = None, last_applied = prev, issued = []\<rparr>
               else
                 (case py_int (dict_get_default g ''width'' (JInt DEFAULT_WIDTH)) of
                    Inl e \<Rightarrow> \<lparr>raised = Some e, last_applied = prev, issued = []\<rparr>
                  | Inr w \<Rightarrow>
                 (case py_int (dict_get_default g ''height'' (JInt DEFAULT_HEIGHT)) of
                    Inl e \<Rightarrow> \<lparr>raised = Some e, last_applied = prev, issued = []\<rparr>
                  | Inr h \<Rightarrow>
                 (case py_int (dict_get_default g ''refresh_hz'' (JInt 0)) of
                    Inl e \<Rightarrow> \<lparr>raised = Some e, last_applied = prev, issued = []\<rparr>
                  | Inr r \<Rightarrow>
                      let rr = (if r > 0 then Some r else None)
                      in (case set_resolution os w h rr of
                            Inl e \<Rightarrow> \<lparr>raised = Some e, last_applied = prev,
                                      issued = [SetResolution w h rr]\<rparr>
                          | Inr _ \<Rightarrow> \<lparr>raised = None, last_applied = Some k,
                                      issued = [SetResolution w h rr]\<rparr>))))))"

text \<open>
  What one pass of the loop reads: the store as it is then, the running processes, and
  what the display API answers.
\<close>
record observation =
  ob_games :: games
  ob_running :: "string set"
  ob_os :: user32

record app_state =
  last_applied_process :: "string option"
  active_process :: "string option"

text \<open>The initial values set in \<^verbatim>\<open>App.__init__\<close>\<close>
definition init_state :: app_state where
  "init_state = \<lparr>last_applied_process = None, active_process = None\<rparr>"

text \<open>
  One pass of the body of \<^verbatim>\<open>App._watch_loop\<close>: the new state, the exception that ended
  the pass (if any), and the display calls issued. The notification of the window is
  not modelled.
\<close>
definition tick :: "observation \<Rightarrow> app_state \<Rightarrow> exn option \<times> app_state \<times> display_call list" where
  "tick ob st =
     (let proc_key = find_active_game (ob_games ob) (ob_running ob);
          out = apply_game_resolution_if_needed (ob_os ob) (ob_games ob) proc_key
                  (last_applied_process st)
      in case raised out of
           Some e \<Rightarrow> (Some e, st\<lparr>last_applied_process := last_applied out\<rparr>, issued out)
         | None \<Rightarrow>
             (None,
              \<lparr>last_applied_process = last_applied out, active_process = proc_key\<rparr>,
              issued out))"

text \<open>
  \<^verbatim>\<open>App._watch_loop\<close> over the passes made until the stop event is set: the state at the
  end, and the display calls of each pass in order. An exception ends the thread, so the
  passes after it are not made.
\<close>
fun watch_loop ::
  "observation list \<Rightarrow> app_state \<Rightarrow> exn option \<times> app_state \<times> display_call list list" where
  "watch_loop [] st = (None, st, [])"
| "watch_loop (ob # obs) st =
     (case tick ob st of
        (Some e, st', calls) \<Rightarrow> (Some e, st', [calls])
      | (None, st', calls) \<Rightarrow>
          (case watch_loop obs st' of (r, st'', rest) \<Rightarrow> (r, st'', calls # rest)))"

subsection \<open>Sample inputs\<close>

text \<open>A current display mode, and a display API that answers fixed status codes.\<close>
definition mode_1920 :: DEVMODEW where
  "mode_1920 = \<lparr>dmFields = 0, dmPelsWidth = 1920, dmPelsHeight = 1080, dmDisplayFrequency = 60\<rparr>"

definition os_answers :: "int \<Rightarrow> int \<Rightarrow> user32" where
  "os_answers t a =
     \<lparr>EnumDisplaySettingsW = Some mode_1920,
      ChangeDisplaySettingsW = (\<lambda>dm flags. if flags = CDS_TEST then t else a)\<rparr>"

text \<open>A pass of the loop over the seeded store while the listed processes run.\<close>
definition seeded_pass :: "string set \<Rightarrow> user32 \<Rightarrow> observation" where
  "seeded_pass running os = \<lparr>ob_games = default_games, ob_running = running, ob_os = os\<rparr>"

text \<open>A store, as a hand-edited \<^verbatim>\<open>config.json\<close> can hold it, whose key is not lowercase.\<close>
definition mixed_case_store :: games where
  "mixed_case_store =
     [(''CS2.exe'',
       [(''name'', JStr ''Counter-Strike 2''),
        (''process'', JStr ''cs2.exe''),
        (''width'', JInt 1440),
        (''height'', JInt 1080),
        (''refresh_hz'', JInt 144)])]"

subsection \<open>The configuration file\<close>

text \<open>The games store as the JSON value kept under \<^verbatim>\<open>"games"\<close>.\<close>
definition games_json :: "games \<Rightarrow> jval" where
  "games_json games = JObj (map (\<lambda>kg. (fst kg, JObj (snd kg))) games)"

text \<open>\<^verbatim>\<open>default_config()\<close> (creating the images folder is not modelled)\<close>
definition default_config :: jval where
  "default_config =
     JObj [(''custom_scan_paths'', JList []), (''games'', games_json default_games)]"

text \<open>
  \<^verbatim>\<open>config.json\<close>: absent, present with text that \<^verbatim>\<open>json.load\<close> rejects, or present with
  the value that \<^verbatim>\<open>json.load\<close> returns. \<^verbatim>\<open>save_config(cfg)\<close> leaves \<open>Parsed cfg\<close>.
\<close>
datatype config_file = Missing | Unparsable | Parsed jval

text \<open>\<^verbatim>\<open>k in x\<close> for a string \<open>k\<close>\<close>
fun py_in :: "string \<Rightarrow> jval \<Rightarrow> exn + bool" where
  "py_in k (JObj kvs) = Inr (k \<in> set (map fst kvs))"
| "py_in k (JList xs) = Inr (JStr k \<in> set xs)"
| "py_in k (JStr s) = Inr (str_contains s k)"
| "py_in k JNull = Inl TypeError"
| "py_in k (JBool b) = Inl TypeError"
| "py_in k (JInt i) = Inl TypeError"

text \<open>\<^verbatim>\<open>x[k] = v\<close> for a string \<open>k\<close>\<close>
fun py_setitem :: "jval \<Rightarrow> string \<Rightarrow> jval \<Rightarrow> exn + jval" where
  "py_setitem (JObj kvs) k v = Inr (JObj (dict_set k v kvs))"
| "py_setitem (JList xs) k v = Inl TypeError"
| "py_setitem (JStr s) k v = Inl TypeError"
| "py_setitem JNull k v = Inl TypeError"
| "py_setitem (JBool b) k v = Inl TypeError"
| "py_setitem (JInt i) k v = Inl TypeError"

text \<open>The body of the \<^verbatim>\<open>try\<close> in \<^verbatim>\<open>load_config\<close>, after \<^verbatim>\<open>json.load\<close>, up to the save.\<close>
definition load_config_try :: "jval \<Rightarrow> exn + jval" where
  "load_config_try doc =
     (case py_in ''games'' doc of
        Inl e \<Rightarrow> Inl e
      | Inr has_games \<Rightarrow>
          let cfg = (if \<not> has_games then default_config else doc)
          in (case py_in ''custom_scan_paths'' cfg of
                Inl e \<Rightarrow> Inl e
              | Inr has_paths \<Rightarrow>
                  if \<not> has_paths then py_setitem cfg ''custom_scan_paths'' (JList [])
                  else Inr cfg))"

text \<open>\<^verbatim>\<open>load_config()\<close>: the configuration returned, and the file it leaves.\<close>
definition load_config :: "config_file \<Rightarrow> jval \<times> config_file" where
  "load_config file =
     (case file of
        Missing \<Rightarrow> (default_config, Parsed default_config)
      | Unparsable \<Rightarrow> (default_config, Parsed default_config)
      | Parsed doc \<Rightarrow>
          (case load_config_try doc of
             Inl e \<Rightarrow> (default_config, Parsed default_config)
           | Inr cfg \<Rightarrow> (cfg, Parsed cfg)))"

subsection \<open>Discovery merge\<close>

text \<open>
  A discovered game, as every scanner builds it: a \<^verbatim>\<open>dict\<close> with the four string entries
  \<^verbatim>\<open>name\<close>, \<^verbatim>\<open>exe_path\<close>, \<^verbatim>\<open>process\<close> and \<^verbatim>\<open>source\<close>.
\<close>
record candidate =
  c_name :: string
  c_exe_path :: string
  c_process :: string
  c_source :: string

definition is_safe_char :: "char \<Rightarrow> bool" where
  "is_safe_char c =
     (let n = (of_char c :: nat)
      in (97 \<le> n \<and> n \<le> 122) \<or> (65 \<le> n \<and> n \<le> 90) \<or> (48 \<le> n \<and> n \<le> 57)
         \<or> c = CHR ''.'' \<or> c = CHR ''_'' \<or> c = CHR ''-'')"

text \<open>
  \<^verbatim>\<open>re.sub(r"[^a-zA-Z0-9._-]+", "_", s)\<close>: every run of other characters becomes one
  underscore. The flag says whether such a run is being read.
\<close>
fun sub_unsafe :: "bool \<Rightarrow> string \<Rightarrow> string" where
  "sub_unsafe in_run [] = []"
| "sub_unsafe in_run (c # cs) =
     (if is_safe_char c then c # sub_unsafe False cs
      else if in_run then sub_unsafe True cs
      else CHR ''_'' # sub_unsafe True cs)"

text \<open>\<^verbatim>\<open>_safe_filename(name)\<close>\<close>
definition safe_filename :: "string \<Rightarrow> string" where
  "safe_filename name =
     (let r = sub_unsafe False (str_strip name) in if r = [] then ''game'' else r)"

text \<open>\<^verbatim>\<open>a or b\<close> for strings\<close>
definition str_or :: "string \<Rightarrow> string \<Rightarrow> string" where
  "str_or a b = (if a \<noteq> [] then a else b)"

text \<open>The profile that the merge stores for a game that is not in the store yet.\<close>
definition new_profile :: "string \<Rightarrow> candidate \<Rightarrow> profile" where
  "new_profile proc_key g =
     [(''name'', JStr (str_or (c_name g) proc_key)),
      (''process'', JStr (str_or (c_process g) proc_key)),
      (''width'', JInt DEFAULT_WIDTH),
      (''height'', JInt DEFAULT_HEIGHT),
      (''refresh_hz'', JInt 144),
      (''image_path'', JStr (path_join IMAGES_DIR (safe_filename proc_key @ ''.png''))),
      (''exe_path'', JStr (c_exe_path g)),
      (''source'', JStr (str_or (c_source g) ''scan''))]"

text \<open>
  What the merge does to a profile that is in the store already: \<^verbatim>\<open>exe_path\<close> and
  \<^verbatim>\<open>source\<close> are written when the stored value is missing or false in Python's sense
  and the discovered one is not empty.
\<close>
definition backfill :: "candidate \<Rightarrow> profile \<Rightarrow> profile" where
  "backfill g p =
     (let p1 = (if \<not> truthy (dict_get p ''exe_path'') \<and> c_exe_path g \<noteq> []
                then dict_set ''exe_path'' (JStr (c_exe_path g)) p else p)
      in if \<not> truthy (dict_get p1 ''source'') \<and> c_source g \<noteq> []
         then dict_set ''source'' (JStr (c_source g)) p1 else p1)"

text \<open>
  The loop of \<^verbatim>\<open>App._merge_discovered_games_into_config\<close> over the discovered games:
  the store and the count of added games, before and after.
\<close>
fun merge_loop :: "candidate list \<Rightarrow> games \<Rightarrow> nat \<Rightarrow> games \<times> nat" where
  "merge_loop [] games added = (games, added)"
| "merge_loop (g # gs) games added =
     (let proc_key = str_lower (c_process g)
      in if proc_key = [] then merge_loop gs games added
         else (case map_of games proc_key of
                 Some p \<Rightarrow> merge_loop gs (dict_set proc_key (backfill g p) games) added
               | None \<Rightarrow>
                   merge_loop gs (dict_set proc_key (new_profile proc_key g) games)
                     (added + 1)))"

text \<open>\<^verbatim>\<open>x in (None, n)\<close>\<close>
definition none_or_eq :: "jval \<Rightarrow> int \<Rightarrow> bool" where
  "none_or_eq x n = (x = JNull \<or> eq_int x n)"

text \<open>
  What one block of the preset step after the loop does to the preset's profile: the name
  is set when absent, and the resolution is set to \<open>w\<close> by \<open>h\<close> when the stored width
  and height are each \<^verbatim>\<open>None\<close>, absent, or the default.
\<close>
definition seed_preset :: "string \<Rightarrow> int \<Rightarrow> int \<Rightarrow> profile \<Rightarrow> profile" where
  "seed_preset name w h p =
     (let p1 = dict_setdefault ''name'' (JStr name) p
      in if none_or_eq (dict_get p1 ''width'') DEFAULT_WIDTH
            \<and> none_or_eq (dict_get p1 ''height'') DEFAULT_HEIGHT
         then dict_set ''height'' (JInt h) (dict_set ''width'' (JInt w) p1)
         else p1)"

text \<open>One block of the preset step, for the preset stored under \<open>key\<close>.\<close>
definition enforce_preset :: "string \<Rightarrow> string \<Rightarrow> int \<Rightarrow> int \<Rightarrow> games \<Rightarrow> games" where
  "enforce_preset key name w h games =
     (case map_of games key of
        None \<Rightarrow> games
      | Some p \<Rightarrow> dict_set key (seed_preset name w h p) games)"

text \<open>The preset step: first \<^verbatim>\<open>cs2.exe\<close>, then \<^verbatim>\<open>valorant-win64-shipping.exe\<close>.\<close>
definition enforce_presets :: "games \<Rightarrow> games" where
  "enforce_presets games =
     enforce_preset ''valorant-win64-shipping.exe'' ''Valorant'' 1568 1080
       (enforce_preset ''cs2.exe'' ''Counter-Strike 2'' 1440 1080 games)"

text \<open>
  \<^verbatim>\<open>App._merge_discovered_games_into_config()\<close>, given the list that
  \<^verbatim>\<open>discover_all_games\<close> returned: the store afterwards, which is also what
  \<^verbatim>\<open>save_config\<close> writes, and the number of games added.
\<close>
definition merge_discovered_games_into_config :: "candidate list \<Rightarrow> games \<Rightarrow> games \<times> nat" where
  "merge_discovered_games_into_config discovered games =
     (case merge_loop discovered games 0 of
        (games1, added) \<Rightarrow> (enforce_presets games1, added))"

text \<open>A store with one user-edited game, and a rediscovery of that game by a scanner.\<close>
definition edited_profile :: profile where
  "edited_profile =
     [(''name'', JStr ''My Game''),
      (''process'', JStr ''game.exe''),
      (''width'', JInt 1600),
      (''height'', JInt 900),
      (''refresh_hz'', JInt 60),
      (''image_path'', JStr ''images/mine.png''),
      (''exe_path'', JNull),
      (''source'', JStr ''manual'')]"

definition rediscovered :: candidate where
  "rediscovered =
     \<lparr>c_name = ''Game'', c_exe_path = ''D:/Games/Game.exe'', c_process = ''Game.exe'',
      c_source = ''steam''\<rparr>"


subsection \<open>Saving an edit\<close>

text \<open>The message of \<^verbatim>\<open>_parse_int\<close>'s error for the field \<open>field\<close> and the text \<open>s\<close>.\<close>
definition msg_invalid_value :: "string \<Rightarrow> string \<Rightarrow> string" where
  "msg_invalid_value field s =
     ''Ung'' @ [CHR 0xFC] @ ''ltiger Wert f'' @ [CHR 0xFC] @ ''r '' @ field @ '': ''
       @ [CHR 0x27] @ s @ [CHR 0x27]"

text \<open>
  \<^verbatim>\<open>App._parse_int(s, field)\<close>: any failure, the check \<^verbatim>\<open>v <= 0\<close> included, is raised
  again as a \<^verbatim>\<open>ValueError\<close> with the message above.
\<close>
definition parse_int :: "string \<Rightarrow> string \<Rightarrow> exn + int" where
  "parse_int s field =
     (case int_str (str_strip s) of
        Inl e \<Rightarrow> Inl (ValueError (msg_invalid_value field s))
      | Inr v \<Rightarrow> if v \<le> 0 then Inl (ValueError (msg_invalid_value field s)) else Inr v)"

text \<open>
  The refresh rate as \<^verbatim>\<open>save_selected_game\<close> reads it:
  \<^verbatim>\<open>r = int(str(self.r_var.get()).strip() or "0")\<close>, then \<^verbatim>\<open>if r < 0: raise ValueError\<close>,
  an exception without a message.
\<close>
definition parse_refresh :: "string \<Rightarrow> exn + int" where
  "parse_refresh s =
     (case int_str (str_or (str_strip s) ''0'') of
        Inl e \<Rightarrow> Inl e
      | Inr r \<Rightarrow> if r < 0 then Inl (ValueError []) else Inr r)"

text \<open>\<^verbatim>\<open>str(e)\<close> for an exception\<close>
fun exn_str :: "exn \<Rightarrow> string" where
  "exn_str (ValueError m) = m"
| "exn_str (OSError m) = m"
| "exn_str TypeError = []"

text \<open>
  What \<^verbatim>\<open>save_selected_game\<close> leaves: the text put in the status line, the store in
  memory, and the store handed to \<^verbatim>\<open>save_config\<close> (\<open>None\<close> when it is not called).
\<close>
record save_result =
  status_msg :: string
  games_after :: games
  saved :: "games option"

definition msg_select_game :: string where
  "msg_select_game = ''Bitte ein Spiel ausw'' @ [CHR 0xE4] @ ''hlen.''"

text \<open>
  \<^verbatim>\<open>App.save_selected_game()\<close>, given the selected process key and the texts of the
  width, height and refresh fields. A key that is not in the store gets a profile of
  name and process before the fields are read. Writing the log line is not modelled.
\<close>
definition save_selected_game ::
  "string option \<Rightarrow> string \<Rightarrow> string \<Rightarrow> string \<Rightarrow> games \<Rightarrow> save_result" where
  "save_selected_game selected w_var h_var r_var games =
     (case selected of
        None \<Rightarrow> \<lparr>status_msg = msg_select_game, games_after = games, saved = None\<rparr>
      | Some proc_key \<Rightarrow>
          if proc_key = []
          then \<lparr>status_msg = msg_select_game, games_after = games, saved = None\<rparr>
          else
            let games1 = (case map_of games proc_key of
                            None \<Rightarrow> dict_set proc_key
                                      [(''name'', JStr proc_key), (''process'', JStr proc_key)] games
                          | Some g \<Rightarrow> games);
                g = (case map_of games proc_key of
                       None \<Rightarrow> [(''name'', JStr proc_key), (''process'', JStr proc_key)]
                     | Some g \<Rightarrow> g)
            in (case parse_int w_var ''Breite'' of
                  Inl e \<Rightarrow> \<lparr>status_msg = exn_str e, games_after = games1, saved = None\<rparr>
                | Inr w \<Rightarrow>
               (case parse_int h_var (''H'' @ [CHR 0xF6] @ ''he'') of
                  Inl e \<Rightarrow> \<lparr>status_msg = exn_str e, games_after = games1, saved = None\<rparr>
                | Inr h \<Rightarrow>
               (case parse_refresh r_var of
                  Inl e \<Rightarrow> \<lparr>status_msg = exn_str e, games_after = games1, saved = None\<rparr>
                | Inr r \<Rightarrow>
                    let g' = dict_set ''refresh_hz'' (JInt r)
                               (dict_set ''height'' (JInt h) (dict_set ''width'' (JInt w) g));
                        games2 = dict_set proc_key g' games1
                    in \<lparr>status_msg = ''Gespeichert.'', games_after = games2,
                        saved = Some games2\<rparr>))))"

subsection \<open>The file system and the executable picker\<close>

text \<open>\<^verbatim>\<open>os.sep\<close> on Windows, the backslash\<close>
definition sep :: char where
  "sep = CHR 0x5C"

text \<open>
  A file, or a directory with its entries in the order in which \<^verbatim>\<open>os.listdir\<close> and
  \<^verbatim>\<open>os.walk\<close> report them. Links and unreadable directories are outside the model.
\<close>
datatype fs_node = File | Dir "(string \<times> fs_node) list"

text \<open>The file system: what a path names, if anything.\<close>
type_synonym filesystem = "string \<Rightarrow> fs_node option"

definition path_exists :: "filesystem \<Rightarrow> string \<Rightarrow> bool" where
  "path_exists fs p = (fs p \<noteq> None)"

text \<open>\<^verbatim>\<open>f.lower().endswith(".exe")\<close>\<close>
definition is_exe_name :: "string \<Rightarrow> bool" where
  "is_exe_name f = endswith (str_lower f) ''.exe''"

text \<open>The first entry that is a file with an executable's name.\<close>
fun first_exe :: "(string \<times> fs_node) list \<Rightarrow> string option" where
  "first_exe [] = None"
| "first_exe ((f, File) # rest) = (if is_exe_name f then Some f else first_exe rest)"
| "first_exe ((f, Dir entries) # rest) = first_exe rest"

text \<open>
  The loop over \<^verbatim>\<open>os.walk(folder)\<close> in \<^verbatim>\<open>_pick_exe_in_folder\<close>, from the directory \<open>root\<close>
  on: the depth of \<open>root\<close> is the number of separators in what follows the text of
  \<open>folder\<close> in it; a directory deeper than the limit is skipped with everything below
  it; otherwise its files are looked at first, then its subdirectories in order.
\<close>
fun walk_dir :: "string \<Rightarrow> int \<Rightarrow> string \<Rightarrow> fs_node \<Rightarrow> string option"
  and walk_entries :: "string \<Rightarrow> int \<Rightarrow> string \<Rightarrow> (string \<times> fs_node) list \<Rightarrow> string option"
where
  "walk_dir folder depth_limit root File = None"
| "walk_dir folder depth_limit root (Dir entries) =
     (if int (str_count (drop (length folder) root) sep) > depth_limit then None
      else (case first_exe entries of
              Some f \<Rightarrow> Some (path_join root f)
            | None \<Rightarrow> walk_entries folder depth_limit root entries))"
| "walk_entries folder depth_limit root [] = None"
| "walk_entries folder depth_limit root (e # rest) =
     (case walk_dir folder depth_limit (path_join root (fst e)) (snd e) of
        Some p \<Rightarrow> Some p
      | None \<Rightarrow> walk_entries folder depth_limit root rest)"

text \<open>\<^verbatim>\<open>_pick_exe_in_folder(folder, depth_limit)\<close>\<close>
definition pick_exe_in_folder :: "filesystem \<Rightarrow> string \<Rightarrow> int \<Rightarrow> string option" where
  "pick_exe_in_folder fs folder depth_limit =
     (if folder = [] then None
      else (case fs folder of
              Some (Dir entries) \<Rightarrow>
                (case first_exe entries of
                   Some f \<Rightarrow> Some (path_join folder f)
                 | None \<Rightarrow> walk_dir folder depth_limit folder (Dir entries))
            | _ \<Rightarrow> None))"

text \<open>A folder whose only executable is \<^verbatim>\<open>sub/deep/deep2/game.exe\<close>.\<close>
definition deep_tree :: fs_node where
  "deep_tree =
     Dir [(''sub'', Dir [(''deep'', Dir [(''deep2'', Dir [(''game.exe'', File)])])])]"

text \<open>A file system in which the path \<open>folder\<close> names that folder.\<close>
definition deep_fs :: "string \<Rightarrow> filesystem" where
  "deep_fs folder = (\<lambda>p. if p = folder then Some deep_tree else None)"

subsection \<open>The registry scanner\<close>

text \<open>\<^verbatim>\<open>s.rfind(p)\<close>: the index of the last occurrence, or -1.\<close>
definition py_rfind :: "string \<Rightarrow> string \<Rightarrow> int" where
  "py_rfind s p = (case str_rfind s p of None \<Rightarrow> - 1 | Some i \<Rightarrow> int i)"

text \<open>\<^verbatim>\<open>s[:n]\<close>\<close>
definition py_prefix :: "string \<Rightarrow> int \<Rightarrow> string" where
  "py_prefix s n = (if n \<ge> 0 then take (nat n) s else take (length s - nat (- n)) s)"

text \<open>
  \<^verbatim>\<open>os.path.basename(p)\<close> on Windows for a path with a drive letter or none (UNC paths
  are outside the model): what follows the last separator.
\<close>
definition basename :: "string \<Rightarrow> string" where
  "basename p =
     (let rest = (if length p \<ge> 2 \<and> p ! 1 = CHR '':'' then drop 2 p else p)
      in rev (takeWhile (\<lambda>c. c \<noteq> sep \<and> c \<noteq> CHR ''/'') (rev rest)))"

text \<open>\<^verbatim>\<open>_looks_like_exe_path(s)\<close>\<close>
definition looks_like_exe_path :: "filesystem \<Rightarrow> string \<Rightarrow> string option" where
  "looks_like_exe_path fs s0 =
     (if s0 = [] then None
      else
        let s1 = str_strip_char (CHR 0x22) (str_strip s0);
            s2 = (if CHR '','' \<in> set s1 \<and> endswith (str_lower s1) ''.exe,0''
                  then py_prefix s1 (py_rfind (str_lower s1) ''.exe'' + 4) else s1);
            s3 = (if str_contains (str_lower s2) ''.exe''
                  then py_prefix s2 (py_rfind (str_lower s2) ''.exe'' + 4) else s2)
        in if endswith (str_lower s3) ''.exe'' \<and> path_exists fs s3 then Some s3 else None)"

text \<open>An entry of \<^verbatim>\<open>_get_uninstall_entries()\<close>\<close>
record uninstall_entry =
  e_name :: string
  e_publisher :: string
  e_install_location :: string
  e_display_icon :: string
  e_uninstall_string :: string

text \<open>The list \<^verbatim>\<open>keywords\<close> of the scanner\<close>
definition scan_keywords :: "string list" where
  "scan_keywords = [''ubisoft'', ''ubisoft connect'', ''blizzard'', ''battle.net'', ''riot'', ''valorant'']"

text \<open>\<^verbatim>\<open>a or b\<close> for two optional strings\<close>
definition opt_or :: "string option \<Rightarrow> string option \<Rightarrow> string option" where
  "opt_or a b = (case a of Some x \<Rightarrow> (if x \<noteq> [] then Some x else b) | None \<Rightarrow> b)"

text \<open>The origin that the scanner gives an entry, from its lowercased name and publisher.\<close>
definition classify_source :: "string \<Rightarrow> string" where
  "classify_source hay =
     (if str_contains hay ''ubisoft'' then ''ubisoft''
      else if str_contains hay ''battle.net'' \<or> str_contains hay ''blizzard'' then ''battlenet''
      else if str_contains hay ''riot'' then ''riot''
      else ''registry'')"

text \<open>
  The loop of \<^verbatim>\<open>discover_from_uninstall_entries\<close> over the entries still to be read, with
  the games found so far.
\<close>
fun uninstall_loop :: "filesystem \<Rightarrow> uninstall_entry list \<Rightarrow> candidate list \<Rightarrow> candidate list" where
  "uninstall_loop fs [] found = found"
| "uninstall_loop fs (e # es) found =
     (let name = str_strip (e_name e);
          publisher = str_strip (e_publisher e);
          hay = str_lower (name @ '' '' @ publisher)
      in if \<not> list_ex (\<lambda>k. str_contains hay k) scan_keywords then uninstall_loop fs es found
         else
           let exe = opt_or (looks_like_exe_path fs (e_display_icon e))
                       (looks_like_exe_path fs (e_uninstall_string e));
               exe' = (case exe of
                         Some x \<Rightarrow> Some x
                       | None \<Rightarrow>
                           let install_loc = str_strip (e_install_location e)
                           in if install_loc \<noteq> [] then pick_exe_in_folder fs install_loc 2
                              else None)
           in (case exe' of
                 None \<Rightarrow> uninstall_loop fs es found
               | Some x \<Rightarrow>
                   if x = [] then uninstall_loop fs es found
                   else
                     let found' = found @ [\<lparr>c_name = name, c_exe_path = x,
                                             c_process = basename x,
                                             c_source = classify_source hay\<rparr>]
                     in if length found' \<ge> DISCOVERY_SCAN_LIMIT then found'
                        else uninstall_loop fs es found'))"

text \<open>
  \<^verbatim>\<open>discover_from_uninstall_entries()\<close>, given the file system and the entries that
  \<^verbatim>\<open>_get_uninstall_entries()\<close> read from the registry.
\<close>
definition discover_from_uninstall_entries ::
  "filesystem \<Rightarrow> uninstall_entry list \<Rightarrow> candidate list" where
  "discover_from_uninstall_entries fs entries = uninstall_loop fs entries []"

text \<open>The icon text \<^verbatim>\<open>C:\Games\u.exe,0\<close> and the path \<^verbatim>\<open>C:\Games\u.exe\<close>.\<close>
definition u_exe :: string where
  "u_exe = ''C:'' @ [sep] @ ''Games'' @ [sep] @ ''u.exe''"

definition u_icon :: string where
  "u_icon = u_exe @ '',0''"

text \<open>An entry named \<^verbatim>\<open>Ubisoft Connect\<close> with that icon.\<close>
definition ubisoft_entry :: "string \<Rightarrow> string \<Rightarrow> string \<Rightarrow> uninstall_entry" where
  "ubisoft_entry publisher install_location uninstall_string =
     \<lparr>e_name = ''Ubisoft Connect'', e_publisher = publisher,
      e_install_location = install_location, e_display_icon = u_icon,
      e_uninstall_string = uninstall_string\<rparr>"

text \<open>A file system with that executable only, and an empty one.\<close>
definition fs_with_u :: filesystem where
  "fs_with_u = (\<lambda>p. if p = u_exe then Some File else None)"

definition fs_empty :: filesystem where
  "fs_empty = (\<lambda>p. None)"

section \<open>Properties\<close>

subsection \<open>Strings\<close>

lemma startswith_append: "startswith (p @ s) p"
  by (induction p) auto

lemma str_contains_append_right: "str_contains s p \<Longrightarrow> str_contains (q @ s) p"
  by (induction q) auto

lemma str_contains_prefix: "str_contains (p @ s) p"
proof (cases "p @ s")
  case Nil
  then show ?thesis by simp
next
  case (Cons c cs)
  have "startswith (p @ s) p" by (rule startswith_append)
  then show ?thesis unfolding Cons by simp
qed

lemma str_contains_mid: "str_contains (a @ p @ b) p"
  by (rule str_contains_append_right) (rule str_contains_prefix)

lemma str_lower_cs2: "str_lower ''cs2.exe'' = ''cs2.exe''"
  by code_simp

lemma str_lower_valorant_key:
  "str_lower ''valorant-win64-shipping.exe'' = ''valorant-win64-shipping.exe''"
  by code_simp

lemma str_lower_x: "str_lower ''x.exe'' = ''x.exe''"
  by code_simp

subsection \<open>The two-phase display protocol\<close>

lemma os_answers_simps:
  "EnumDisplaySettingsW (os_answers t a) = Some mode_1920"
  "ChangeDisplaySettingsW (os_answers t a) dm CDS_TEST = t"
  "ChangeDisplaySettingsW (os_answers t a) dm CDS_UPDATEREGISTRY = a"
  by (simp_all add: os_answers_def CDS_TEST_def CDS_UPDATEREGISTRY_def)

text \<open>
  C3. For every width, height and optional refresh rate, once the current mode has been
  read, \<^verbatim>\<open>set_resolution\<close> first makes the native test call. If that returns a nonzero
  status, the result is a failure whose message carries that status code, and the test
  call is the only native change call made: the apply-and-persist call is never invoked.
  If the test returns zero and the apply call returns a nonzero status, the result is a
  failure whose message carries the apply call's code. If both return zero, the result is
  success.
\<close>
theorem set_resolution_two_phase:
  fixes os :: user32 and width height :: int and refresh_hz :: "int option"
  assumes "EnumDisplaySettingsW os = Some dm0"
  defines "dm \<equiv> requested_mode dm0 width height refresh_hz"
  defines "t \<equiv> ChangeDisplaySettingsW os dm CDS_TEST"
  defines "a \<equiv> ChangeDisplaySettingsW os dm CDS_UPDATEREGISTRY"
  shows "(t \<noteq> 0 \<longrightarrow>
            set_resolution os width height refresh_hz =
              Inr ((False, msg_test_failed t), [ChangeDisplaySettings dm CDS_TEST])
            \<and> str_contains (msg_test_failed t) (str_int t))
       \<and> (t = 0 \<and> a \<noteq> 0 \<longrightarrow>
            set_resolution os width height refresh_hz =
              Inr ((False, msg_apply_failed a),
                   [ChangeDisplaySettings dm CDS_TEST, ChangeDisplaySettings dm CDS_UPDATEREGISTRY])
            \<and> str_contains (msg_apply_failed a) (str_int a))
       \<and> (t = 0 \<and> a = 0 \<longrightarrow>
            set_resolution os width height refresh_hz =
              Inr ((True, ''OK''),
                   [ChangeDisplaySettings dm CDS_TEST, ChangeDisplaySettings dm CDS_UPDATEREGISTRY]))"
proof -
  have m1: "str_contains (msg_test_failed t) (str_int t)"
    unfolding msg_test_failed_def
    by (metis append.assoc str_contains_mid)
  have m2: "str_contains (msg_apply_failed a) (str_int a)"
    unfolding msg_apply_failed_def
    by (metis append.assoc str_contains_mid)
  show ?thesis
    using assms(1) m1 m2
    by (simp add: set_resolution_def get_current_display_mode_def Let_def
        DISP_CHANGE_SUCCESSFUL_def dm_def t_def a_def)
qed

theorem set_resolution_two_phase_witness:
  "EnumDisplaySettingsW (os_answers (- 2) 0) = Some mode_1920
   \<and> set_resolution (os_answers (- 2) 0) 1440 1080 (Some 144) =
       Inr ((False, msg_test_failed (- 2)),
            [ChangeDisplaySettings (requested_mode mode_1920 1440 1080 (Some 144)) CDS_TEST])
   \<and> str_contains (msg_test_failed (- 2)) (str_int (- 2))
   \<and> set_resolution (os_answers 0 (- 1)) 1440 1080 (Some 144) =
       Inr ((False, msg_apply_failed (- 1)),
            [ChangeDisplaySettings (requested_mode mode_1920 1440 1080 (Some 144)) CDS_TEST,
             ChangeDisplaySettings (requested_mode mode_1920 1440 1080 (Some 144)) CDS_UPDATEREGISTRY])
   \<and> str_contains (msg_apply_failed (- 1)) (str_int (- 1))
   \<and> set_resolution (os_answers 0 0) 1920 1080 None =
       Inr ((True, ''OK''),
            [ChangeDisplaySettings (requested_mode mode_1920 1920 1080 None) CDS_TEST,
             ChangeDisplaySettings (requested_mode mode_1920 1920 1080 None) CDS_UPDATEREGISTRY])"
  using set_resolution_two_phase [of "os_answers (- 2) 0" mode_1920 1440 1080 "Some 144"]
        set_resolution_two_phase [of "os_answers 0 (- 1)" mode_1920 1440 1080 "Some 144"]
        set_resolution_two_phase [of "os_answers 0 0" mode_1920 1920 1080 None]
  by (simp add: os_answers_simps)

subsection \<open>The polling loop\<close>

lemma find_default_none: "find_active_game default_games {} = None"
  by (simp add: default_games_def)

lemma find_default_cs2: "find_active_game default_games {''cs2.exe''} = Some ''cs2.exe''"
  by (simp add: default_games_def dict_get_default_def py_str_def str_lower_cs2)

lemma set_resolution_returns:
  "EnumDisplaySettingsW os = Some dm0 \<Longrightarrow> \<exists>r. set_resolution os w h rr = Inr r"
  by (auto simp add: set_resolution_def get_current_display_mode_def Let_def)

lemma apply_same:
  "apply_game_resolution_if_needed os games k k = \<lparr>raised = None, last_applied = k, issued = []\<rparr>"
  by (simp add: apply_game_resolution_if_needed_def)

lemma apply_baseline_issued:
  "issued (apply_game_resolution_if_needed os games None (Some k))
     = [SetResolution 1920 1080 None]"
  by (cases "set_resolution os DEFAULT_WIDTH DEFAULT_HEIGHT None")
     (simp_all add: apply_game_resolution_if_needed_def DEFAULT_WIDTH_def DEFAULT_HEIGHT_def)

lemma watch_loop_last_pass:
  "snd (snd (watch_loop [ob] st)) = [snd (snd (tick ob st))]"
  by (cases "tick ob st" rule: prod_cases3) (auto split: option.splits)

lemma watch_loop_next_pass:
  "tick ob st = (None, st', calls) \<Longrightarrow>
     snd (snd (watch_loop (ob # obs) st)) = calls # snd (snd (watch_loop obs st'))"
  by (simp split: prod.splits)

lemma apply_profile:
  assumes "map_of games k = Some g" "g \<noteq> []"
    and "py_int (dict_get_default g ''width'' (JInt DEFAULT_WIDTH)) = Inr w"
    and "py_int (dict_get_default g ''height'' (JInt DEFAULT_HEIGHT)) = Inr h"
    and "py_int (dict_get_default g ''refresh_hz'' (JInt 0)) = Inr r"
    and "set_resolution os w h (if r > 0 then Some r else None) = Inr res"
    and "prev \<noteq> Some k"
  shows "apply_game_resolution_if_needed os games (Some k) prev =
     \<lparr>raised = None, last_applied = Some k,
      issued = [SetResolution w h (if r > 0 then Some r else None)]\<rparr>"
  using assms by (auto simp add: apply_game_resolution_if_needed_def Let_def)

lemma map_of_default_cs2: "map_of default_games ''cs2.exe'' = Some (snd (hd default_games))"
  by (simp add: default_games_def)

lemma cs2_profile_fields:
  "snd (hd default_games) \<noteq> []"
  "py_int (dict_get_default (snd (hd default_games)) ''width'' (JInt DEFAULT_WIDTH)) = Inr 1440"
  "py_int (dict_get_default (snd (hd default_games)) ''height'' (JInt DEFAULT_HEIGHT)) = Inr 1080"
  "py_int (dict_get_default (snd (hd default_games)) ''refresh_hz'' (JInt 0)) = Inr 144"
  by (simp_all add: default_games_def dict_get_default_def)

text \<open>
  C1. Over the seeded store, starting from no applied profile, when the loop sees no
  process on pass 1, \<^verbatim>\<open>cs2.exe\<close> on pass 2 and no process on pass 3, the display calls
  it issues are: none on pass 1, \<^verbatim>\<open>set_resolution(1440, 1080, 144)\<close> on pass 2 and
  \<^verbatim>\<open>set_resolution(1920, 1080, None)\<close> on pass 3, and nothing else. This holds whatever
  status codes the display API returns; the loop reaches pass 3 when the mode query of
  pass 2 succeeds, so that the call of pass 2 returns.
\<close>
theorem watch_loop_cs2_scenario:
  assumes "EnumDisplaySettingsW os2 = Some dm2"
  shows "snd (snd (watch_loop
           [seeded_pass {} os1, seeded_pass {''cs2.exe''} os2, seeded_pass {} os3] init_state))
         = [[], [SetResolution 1440 1080 (Some 144)], [SetResolution 1920 1080 None]]"
proof -
  have t1: "tick (seeded_pass {} os1) \<lparr>last_applied_process = None, active_process = None\<rparr>
            = (None, \<lparr>last_applied_process = None, active_process = None\<rparr>, [])"
    by (simp add: tick_def seeded_pass_def find_default_none apply_same Let_def)
  obtain res where res: "set_resolution os2 1440 1080 (Some 144) = Inr res"
    using set_resolution_returns [OF assms(1)] by blast
  have a2: "apply_game_resolution_if_needed os2 default_games (Some ''cs2.exe'') None
            = \<lparr>raised = None, last_applied = Some ''cs2.exe'',
               issued = [SetResolution 1440 1080 (Some 144)]\<rparr>"
    using apply_profile [OF map_of_default_cs2 cs2_profile_fields, of os2 res None] res
    by simp
  have t2: "tick (seeded_pass {''cs2.exe''} os2)
              \<lparr>last_applied_process = None, active_process = None\<rparr>
            = (None, \<lparr>last_applied_process = Some ''cs2.exe'', active_process = Some ''cs2.exe''\<rparr>,
               [SetResolution 1440 1080 (Some 144)])"
    by (simp add: tick_def seeded_pass_def find_default_cs2 a2 Let_def)
  have t3: "snd (snd (tick (seeded_pass {} os3)
              \<lparr>last_applied_process = Some ''cs2.exe'', active_process = Some ''cs2.exe''\<rparr>))
            = [SetResolution 1920 1080 None]"
    using apply_baseline_issued [of os3 default_games "''cs2.exe''"]
    by (simp add: tick_def seeded_pass_def find_default_none Let_def split: option.splits)
  have l3: "snd (snd (watch_loop [seeded_pass {} os3]
              \<lparr>last_applied_process = Some ''cs2.exe'', active_process = Some ''cs2.exe''\<rparr>))
            = [[SetResolution 1920 1080 None]]"
    by (simp only: watch_loop_last_pass t3)
  show ?thesis
    unfolding init_state_def
    by (simp only: watch_loop_next_pass [OF t1] watch_loop_next_pass [OF t2] l3)
qed

theorem watch_loop_cs2_scenario_witness:
  "EnumDisplaySettingsW (os_answers 0 0) = Some mode_1920
   \<and> snd (snd (watch_loop [seeded_pass {} (os_answers 0 0), seeded_pass {''cs2.exe''} (os_answers 0 0),
                  seeded_pass {} (os_answers 0 0)] init_state))
     = [[], [SetResolution 1440 1080 (Some 144)], [SetResolution 1920 1080 None]]"
  using watch_loop_cs2_scenario [of "os_answers 0 0" mode_1920 "os_answers 0 0" "os_answers 0 0"]
  by (simp add: os_answers_simps)

lemma tick_same:
  assumes "find_active_game (ob_games ob) (ob_running ob) = last_applied_process st"
  shows "tick ob st = (None, \<lparr>last_applied_process = last_applied_process st,
                               active_process = last_applied_process st\<rparr>, [])"
  using assms by (simp add: tick_def Let_def apply_same)

lemma watch_loop_same:
  assumes "\<forall>ob \<in> set obs. find_active_game (ob_games ob) (ob_running ob) = Some k"
  shows "watch_loop obs \<lparr>last_applied_process = Some k, active_process = Some k\<rparr>
         = (None, \<lparr>last_applied_process = Some k, active_process = Some k\<rparr>,
            replicate (length obs) [])"
  using assms
proof (induction obs)
  case Nil
  then show ?case by simp
next
  case (Cons ob obs)
  have "tick ob \<lparr>last_applied_process = Some k, active_process = Some k\<rparr>
        = (None, \<lparr>last_applied_process = Some k, active_process = Some k\<rparr>, [])"
    using Cons.prems tick_same [of ob "\<lparr>last_applied_process = Some k, active_process = Some k\<rparr>"]
    by simp
  then show ?case using Cons by simp
qed

text \<open>
  C2, as amended. On a pass where a profile is matched, the matched key is found in the
  store with a profile that is not empty and whose width, height and refresh rate convert
  to integers, and the display call returns, the loop sets its last-applied key to the
  matched key whatever the call reports: \<open>ok\<close> below is the success flag that
  \<^verbatim>\<open>set_resolution\<close> returns, and it may be \<open>False\<close>. Consequently, on every following
  pass on which the matched key is still that key, no display call is made at all: the
  call lists of those passes are empty, so a failed apply for a game that keeps running
  is not retried.
\<close>
theorem failed_apply_not_retried:
  assumes match: "find_active_game (ob_games ob) (ob_running ob) = Some k"
    and prof: "map_of (ob_games ob) k = Some g" "g \<noteq> []"
    and w: "py_int (dict_get_default g ''width'' (JInt DEFAULT_WIDTH)) = Inr w"
    and h: "py_int (dict_get_default g ''height'' (JInt DEFAULT_HEIGHT)) = Inr h"
    and r: "py_int (dict_get_default g ''refresh_hz'' (JInt 0)) = Inr r"
    and res: "set_resolution (ob_os ob) w h (if r > 0 then Some r else None) = Inr ((ok, msg), nc)"
    and diff: "last_applied_process st \<noteq> Some k"
    and later: "\<forall>ob' \<in> set obs. find_active_game (ob_games ob') (ob_running ob') = Some k"
  shows "watch_loop (ob # obs) st
         = (None, \<lparr>last_applied_process = Some k, active_process = Some k\<rparr>,
            [SetResolution w h (if r > 0 then Some r else None)] # replicate (length obs) [])"
proof -
  have "tick ob st = (None, \<lparr>last_applied_process = Some k, active_process = Some k\<rparr>,
                      [SetResolution w h (if r > 0 then Some r else None)])"
    using apply_profile [OF prof w h r res diff] match
    by (simp add: tick_def Let_def)
  then show ?thesis
    using watch_loop_same [OF later] by simp
qed

theorem failed_apply_not_retried_witness:
  "set_resolution (os_answers (- 2) 0) 1440 1080 (Some 144)
     = Inr ((False, msg_test_failed (- 2)),
            [ChangeDisplaySettings (requested_mode mode_1920 1440 1080 (Some 144)) CDS_TEST])
   \<and> watch_loop [seeded_pass {''cs2.exe''} (os_answers (- 2) 0),
                  seeded_pass {''cs2.exe''} (os_answers (- 2) 0),
                  seeded_pass {''cs2.exe''} (os_answers 0 0)] init_state
     = (None, \<lparr>last_applied_process = Some ''cs2.exe'', active_process = Some ''cs2.exe''\<rparr>,
        [[SetResolution 1440 1080 (Some 144)], [], []])"
proof -
  have res: "set_resolution (os_answers (- 2) 0) 1440 1080 (Some 144)
     = Inr ((False, msg_test_failed (- 2)),
            [ChangeDisplaySettings (requested_mode mode_1920 1440 1080 (Some 144)) CDS_TEST])"
    by (simp add: set_resolution_def get_current_display_mode_def os_answers_simps Let_def
        DISP_CHANGE_SUCCESSFUL_def)
  have "watch_loop (seeded_pass {''cs2.exe''} (os_answers (- 2) 0)
                    # [seeded_pass {''cs2.exe''} (os_answers (- 2) 0),
                       seeded_pass {''cs2.exe''} (os_answers 0 0)]) init_state
     = (None, \<lparr>last_applied_process = Some ''cs2.exe'', active_process = Some ''cs2.exe''\<rparr>,
        [SetResolution 1440 1080 (if (144::int) > 0 then Some 144 else None)]
        # replicate (length [seeded_pass {''cs2.exe''} (os_answers (- 2) 0),
                             seeded_pass {''cs2.exe''} (os_answers 0 0)]) [])"
    by (rule failed_apply_not_retried [where g = "snd (hd default_games)" and ok = False
          and msg = "msg_test_failed (- 2)"
          and nc = "[ChangeDisplaySettings (requested_mode mode_1920 1440 1080 (Some 144)) CDS_TEST]"])
       (simp_all add: seeded_pass_def find_default_cs2 map_of_default_cs2 cs2_profile_fields
          res init_state_def)
  then show ?thesis using res by simp
qed

lemma str_lower_CS2: "str_lower ''CS2.exe'' = ''cs2.exe''"
  by code_simp

text \<open>
  C2 as stated fails: in a store whose key is \<^verbatim>\<open>CS2.exe\<close>, the profile is matched when
  \<^verbatim>\<open>cs2.exe\<close> runs and the matched key is \<^verbatim>\<open>cs2.exe\<close>, which is not a key of the store;
  the pass makes no display call and leaves the last-applied key at \<^verbatim>\<open>None\<close>.
\<close>
theorem matched_key_not_applied:
  "find_active_game mixed_case_store {''cs2.exe''} = Some ''cs2.exe''
   \<and> tick \<lparr>ob_games = mixed_case_store, ob_running = {''cs2.exe''}, ob_os = os_answers 0 0\<rparr>
        init_state
     = (None, \<lparr>last_applied_process = None, active_process = Some ''cs2.exe''\<rparr>, [])"
proof -
  have f: "find_active_game mixed_case_store {''cs2.exe''} = Some ''cs2.exe''"
    by (simp add: mixed_case_store_def dict_get_default_def py_str_def str_lower_cs2
        str_lower_CS2)
  have m: "map_of mixed_case_store ''cs2.exe'' = None"
    by (simp add: mixed_case_store_def)
  show ?thesis
    by (simp add: f m tick_def Let_def init_state_def apply_game_resolution_if_needed_def)
qed

lemma find_active_game_key:
  "find_active_game games running = Some k \<Longrightarrow> \<exists>kk \<in> fst ` set games. k = str_lower kk"
  by (induction games running rule: find_active_game.induct) (auto simp: Let_def split: if_splits)

lemma map_of_key: "k \<in> fst ` set xs \<Longrightarrow> \<exists>v. map_of xs k = Some v"
  by (induction xs) auto

text \<open>
  C10, as amended. For every store whose keys are all lowercase and every set of running
  processes, a key returned by the active-game lookup is a key of the store, so
  \<^verbatim>\<open>games.get\<close> finds a stored profile under it. The early return \<^verbatim>\<open>if not g: return\<close>
  is then taken exactly when that stored profile is the empty \<^verbatim>\<open>dict\<close>; in a store
  without empty profiles it is not taken.
\<close>
theorem active_game_is_stored:
  assumes "keys_lowercase games" and "find_active_game games running = Some k"
  shows "k \<in> fst ` set games
       \<and> (\<exists>g. map_of games k = Some g \<and> g \<in> snd ` set games
              \<and> (not_g (map_of games k) \<longleftrightarrow> g = []))
       \<and> ((\<forall>g \<in> snd ` set games. g \<noteq> []) \<longrightarrow> \<not> not_g (map_of games k))"
proof -
  obtain kk where kk: "kk \<in> fst ` set games" "k = str_lower kk"
    using find_active_game_key [OF assms(2)] by blast
  have "str_lower kk = kk"
    using assms(1) kk(1) by (auto simp: keys_lowercase_def list_all_iff)
  then have mem: "k \<in> fst ` set games" using kk by simp
  from map_of_key [OF mem] obtain g where g: "map_of games k = Some g" ..
  then have "(k, g) \<in> set games" by (rule map_of_SomeD)
  then have gm: "g \<in> snd ` set games" by force
  have b: "(\<forall>g \<in> snd ` set games. g \<noteq> []) \<longrightarrow> \<not> not_g (map_of games k)"
    using g gm by auto
  show ?thesis
    apply (intro conjI)
      apply (rule mem)
     apply (rule exI [of _ g])
     apply (simp add: g gm)
    apply (rule b)
    done
qed

theorem active_game_is_stored_witness:
  "keys_lowercase default_games
   \<and> find_active_game default_games {''cs2.exe''} = Some ''cs2.exe''
   \<and> list_all (\<lambda>g. g \<noteq> []) (map snd default_games)
   \<and> ''cs2.exe'' \<in> fst ` set default_games
   \<and> \<not> not_g (map_of default_games ''cs2.exe'')"
proof -
  have kl: "keys_lowercase default_games"
    by (simp add: keys_lowercase_def default_games_def str_lower_cs2 str_lower_valorant_key)
  have ne: "\<forall>g \<in> snd ` set default_games. g \<noteq> []"
    by (simp add: default_games_def)
  have ne': "list_all (\<lambda>g. g \<noteq> []) (map snd default_games)"
    by (simp add: default_games_def)
  show ?thesis
    using active_game_is_stored [OF kl find_default_cs2] kl ne ne' find_default_cs2 by simp
qed

text \<open>
  C10 as stated fails: a store with the lowercase key \<^verbatim>\<open>x.exe\<close> and an empty profile
  under it matches a running \<^verbatim>\<open>x.exe\<close> through the key, and the apply step then takes
  the early return: no display call, last-applied key unchanged.
\<close>
theorem empty_profile_reaches_early_return:
  "keys_lowercase [(''x.exe'', [])]
   \<and> find_active_game [(''x.exe'', [])] {''x.exe''} = Some ''x.exe''
   \<and> not_g (map_of [(''x.exe'', [])] ''x.exe'')
   \<and> apply_game_resolution_if_needed (os_answers 0 0) [(''x.exe'', [])] (Some ''x.exe'') None
       = \<lparr>raised = None, last_applied = None, issued = []\<rparr>"
  by (simp add: keys_lowercase_def str_lower_x dict_get_default_def py_str_def
      apply_game_resolution_if_needed_def)

subsection \<open>Loading the configuration\<close>

lemma dict_set_absent: "k \<notin> fst ` set d \<Longrightarrow> dict_set k v d = d @ [(k, v)]"
  by (induction d) auto

lemma default_has_paths: "py_in ''custom_scan_paths'' default_config = Inr True"
  by (simp add: default_config_def)

lemma load_config_no_games:
  "''games'' \<notin> fst ` set kvs \<Longrightarrow>
     load_config (Parsed (JObj kvs)) = (default_config, Parsed default_config)"
  by (simp add: load_config_def load_config_try_def default_has_paths)

lemma load_config_no_paths:
  "''games'' \<in> fst ` set kvs \<Longrightarrow> ''custom_scan_paths'' \<notin> fst ` set kvs \<Longrightarrow>
     load_config (Parsed (JObj kvs)) =
       (JObj (kvs @ [(''custom_scan_paths'', JList [])]),
        Parsed (JObj (kvs @ [(''custom_scan_paths'', JList [])])))"
  by (simp add: load_config_def load_config_try_def dict_set_absent)

text \<open>
  C5, as amended. When \<^verbatim>\<open>config.json\<close> is missing, is not readable as JSON, or holds a JSON
  object without the field \<^verbatim>\<open>games\<close>, \<^verbatim>\<open>load_config\<close> returns exactly the seeded
  default configuration (the two presets \<^verbatim>\<open>cs2.exe\<close> and
  \<^verbatim>\<open>valorant-win64-shipping.exe\<close>, no custom scan paths) and leaves that document in the
  file. When the object has \<^verbatim>\<open>games\<close> and lacks only \<^verbatim>\<open>custom_scan_paths\<close>, its content
  is kept, an empty \<^verbatim>\<open>custom_scan_paths\<close> is added, and that document is returned and
  saved. The default configuration itself loads unchanged.
\<close>
theorem load_config_reset:
  "(file = Missing \<or> file = Unparsable
      \<or> (\<exists>kvs. file = Parsed (JObj kvs) \<and> ''games'' \<notin> fst ` set kvs)
    \<longrightarrow> load_config file = (default_config, Parsed default_config))
   \<and> (\<forall>kvs. file = Parsed (JObj kvs) \<and> ''games'' \<in> fst ` set kvs
            \<and> ''custom_scan_paths'' \<notin> fst ` set kvs
        \<longrightarrow> load_config file =
              (JObj (kvs @ [(''custom_scan_paths'', JList [])]),
               Parsed (JObj (kvs @ [(''custom_scan_paths'', JList [])]))))
   \<and> map fst default_games = [''cs2.exe'', ''valorant-win64-shipping.exe'']
   \<and> py_in ''games'' default_config = Inr True
   \<and> load_config_try default_config = Inr default_config"
proof (intro conjI)
  show "file = Missing \<or> file = Unparsable
      \<or> (\<exists>kvs. file = Parsed (JObj kvs) \<and> ''games'' \<notin> fst ` set kvs)
    \<longrightarrow> load_config file = (default_config, Parsed default_config)"
    using load_config_no_games by (auto simp add: load_config_def)
  show "\<forall>kvs. file = Parsed (JObj kvs) \<and> ''games'' \<in> fst ` set kvs
            \<and> ''custom_scan_paths'' \<notin> fst ` set kvs
        \<longrightarrow> load_config file =
              (JObj (kvs @ [(''custom_scan_paths'', JList [])]),
               Parsed (JObj (kvs @ [(''custom_scan_paths'', JList [])])))"
    using load_config_no_paths by blast
  show "map fst default_games = [''cs2.exe'', ''valorant-win64-shipping.exe'']"
    by (simp add: default_games_def)
  show g: "py_in ''games'' default_config = Inr True"
    by (simp add: default_config_def)
  show "load_config_try default_config = Inr default_config"
    by (simp add: load_config_try_def g default_has_paths)
qed

theorem load_config_reset_witness:
  "load_config Missing = (default_config, Parsed default_config)
   \<and> load_config Unparsable = (default_config, Parsed default_config)
   \<and> load_config (Parsed (JObj [(''custom_scan_paths'', JList [])]))
       = (default_config, Parsed default_config)
   \<and> load_config (Parsed (JObj [(''games'', JObj [])]))
       = (JObj [(''games'', JObj []), (''custom_scan_paths'', JList [])],
          Parsed (JObj [(''games'', JObj []), (''custom_scan_paths'', JList [])]))"
  using load_config_reset [of Missing] load_config_reset [of Unparsable]
        load_config_reset [of "Parsed (JObj [(''custom_scan_paths'', JList [])])"]
        load_config_reset [of "Parsed (JObj [(''games'', JObj [])])"]
  by simp

text \<open>
  C5 as stated fails: a document with an empty \<^verbatim>\<open>games\<close> object and no
  \<^verbatim>\<open>custom_scan_paths\<close> is not reset to the seeded default; it is completed and kept.
\<close>
theorem load_config_without_paths_keeps_games:
  "load_config (Parsed (JObj [(''games'', JObj [])]))
     = (JObj [(''games'', JObj []), (''custom_scan_paths'', JList [])],
        Parsed (JObj [(''games'', JObj []), (''custom_scan_paths'', JList [])]))
   \<and> JObj [(''games'', JObj []), (''custom_scan_paths'', JList [])] \<noteq> default_config"
  by (simp add: load_config_def load_config_try_def default_config_def)

subsection \<open>The discovery merge and the preset step\<close>

lemma map_of_dict_set: "map_of (dict_set k v d) = (map_of d)(k \<mapsto> v)"
  by (induction d) (auto simp: fun_eq_iff)

lemma dict_get_dict_set:
  "dict_get (dict_set k v d) f = (if f = k then v else dict_get d f)"
  by (simp add: dict_get_def map_of_dict_set)

lemma backfill_other: "f \<noteq> ''exe_path'' \<Longrightarrow> f \<noteq> ''source'' \<Longrightarrow> map_of (backfill g p) f = map_of p f"
  by (simp add: backfill_def Let_def map_of_dict_set)

lemma backfill_exe_path:
  "map_of (backfill g p) ''exe_path'' =
     (if \<not> truthy (dict_get p ''exe_path'') \<and> c_exe_path g \<noteq> []
      then Some (JStr (c_exe_path g)) else map_of p ''exe_path'')"
  by (simp add: backfill_def Let_def map_of_dict_set)

lemma backfill_source:
  "map_of (backfill g p) ''source'' =
     (if \<not> truthy (dict_get p ''source'') \<and> c_source g \<noteq> []
      then Some (JStr (c_source g)) else map_of p ''source'')"
  by (simp add: backfill_def Let_def map_of_dict_set dict_get_dict_set)

lemma merge_loop_existing:
  assumes "map_of games k = Some p"
  shows "\<exists>p'. map_of (fst (merge_loop cands games n)) k = Some p'
      \<and> (\<forall>f. f \<noteq> ''exe_path'' \<and> f \<noteq> ''source'' \<longrightarrow> map_of p' f = map_of p f)
      \<and> (map_of p' ''exe_path'' = map_of p ''exe_path''
           \<or> (\<not> truthy (dict_get p ''exe_path'')
               \<and> (\<exists>c \<in> set cands. str_lower (c_process c) = k \<and> c_exe_path c \<noteq> []
                     \<and> map_of p' ''exe_path'' = Some (JStr (c_exe_path c)))))
      \<and> (map_of p' ''source'' = map_of p ''source''
           \<or> (\<not> truthy (dict_get p ''source'')
               \<and> (\<exists>c \<in> set cands. str_lower (c_process c) = k \<and> c_source c \<noteq> []
                     \<and> map_of p' ''source'' = Some (JStr (c_source c)))))"
  using assms
proof (induction cands arbitrary: games p n)
  case Nil
  then show ?case by simp
next
  case (Cons g gs)
  let ?pk = "str_lower (c_process g)"
  show ?case
  proof (cases "?pk = []")
    case True
    then show ?thesis using Cons.IH [OF Cons.prems, of n] by (auto simp: Let_def)
  next
    case nonempty: False
    show ?thesis
    proof (cases "?pk = k")
      case True
      let ?q = "backfill g p"
      have step: "merge_loop (g # gs) games n = merge_loop gs (dict_set k ?q games) n"
        using True nonempty Cons.prems by (simp add: Let_def)
      have "map_of (dict_set k ?q games) k = Some ?q" by (simp add: map_of_dict_set)
      from Cons.IH [OF this, of n] obtain p' where
        p': "map_of (fst (merge_loop gs (dict_set k ?q games) n)) k = Some p'"
        and oth: "\<forall>f. f \<noteq> ''exe_path'' \<and> f \<noteq> ''source'' \<longrightarrow> map_of p' f = map_of ?q f"
        and exe: "map_of p' ''exe_path'' = map_of ?q ''exe_path''
           \<or> (\<not> truthy (dict_get ?q ''exe_path'')
               \<and> (\<exists>c \<in> set gs. str_lower (c_process c) = k \<and> c_exe_path c \<noteq> []
                     \<and> map_of p' ''exe_path'' = Some (JStr (c_exe_path c))))"
        and src: "map_of p' ''source'' = map_of ?q ''source''
           \<or> (\<not> truthy (dict_get ?q ''source'')
               \<and> (\<exists>c \<in> set gs. str_lower (c_process c) = k \<and> c_source c \<noteq> []
                     \<and> map_of p' ''source'' = Some (JStr (c_source c))))"
        by blast
      have a: "\<forall>f. f \<noteq> ''exe_path'' \<and> f \<noteq> ''source'' \<longrightarrow> map_of p' f = map_of p f"
        using oth by (simp add: backfill_other)
      have b: "map_of p' ''exe_path'' = map_of p ''exe_path''
           \<or> (\<not> truthy (dict_get p ''exe_path'')
               \<and> (\<exists>c \<in> set (g # gs). str_lower (c_process c) = k \<and> c_exe_path c \<noteq> []
                     \<and> map_of p' ''exe_path'' = Some (JStr (c_exe_path c))))"
        using exe True by (auto simp: backfill_exe_path dict_get_def split: if_splits)
      have c: "map_of p' ''source'' = map_of p ''source''
           \<or> (\<not> truthy (dict_get p ''source'')
               \<and> (\<exists>c \<in> set (g # gs). str_lower (c_process c) = k \<and> c_source c \<noteq> []
                     \<and> map_of p' ''source'' = Some (JStr (c_source c))))"
        using src True by (auto simp: backfill_source dict_get_def split: if_splits)
      show ?thesis unfolding step using p' a b c by blast
    next
      case False
      obtain games' n' where step: "merge_loop (g # gs) games n = merge_loop gs games' n'"
        and keep: "map_of games' k = Some p"
        using False nonempty Cons.prems
        by (cases "map_of games ?pk") (auto simp: Let_def map_of_dict_set)
      from Cons.IH [OF keep, of n'] show ?thesis unfolding step by auto
    qed
  qed
qed


lemma map_of_dict_setdefault:
  "map_of (dict_setdefault k v d) f = (if f = k \<and> map_of d k = None then Some v else map_of d f)"
  by (auto simp: dict_setdefault_def map_add_def split: option.splits)

lemma dict_get_dict_setdefault:
  "f \<noteq> k \<Longrightarrow> dict_get (dict_setdefault k v d) f = dict_get d f"
  by (simp add: dict_get_def map_of_dict_setdefault)

lemma seed_preset_width:
  "dict_get (seed_preset name w h p) ''width'' =
     (if none_or_eq (dict_get p ''width'') DEFAULT_WIDTH
         \<and> none_or_eq (dict_get p ''height'') DEFAULT_HEIGHT
      then JInt w else dict_get p ''width'')"
  by (simp add: seed_preset_def Let_def dict_get_dict_set dict_get_dict_setdefault)



lemma seed_preset_other:
  "f \<noteq> ''name'' \<Longrightarrow> f \<noteq> ''width'' \<Longrightarrow> f \<noteq> ''height'' \<Longrightarrow>
     map_of (seed_preset name w h p) f = map_of p f"
  by (simp add: seed_preset_def Let_def map_of_dict_set map_of_dict_setdefault)

lemma seed_preset_name:
  "map_of (seed_preset name w h p) ''name'' =
     (case map_of p ''name'' of None \<Rightarrow> Some (JStr name) | Some v \<Rightarrow> Some v)"
  by (simp add: seed_preset_def Let_def map_of_dict_set map_of_dict_setdefault split: option.splits)

lemma enforce_preset_other:
  "k \<noteq> key \<Longrightarrow> map_of (enforce_preset key name w h games) k = map_of games k"
  by (simp add: enforce_preset_def map_of_dict_set split: option.splits)

lemma enforce_preset_at:
  "map_of (enforce_preset key name w h games) key =
     map_option (seed_preset name w h) (map_of games key)"
  by (simp add: enforce_preset_def map_of_dict_set split: option.splits)

lemma enforce_presets_map_of:
  "map_of (enforce_presets games) k =
     (if k = ''valorant-win64-shipping.exe''
      then map_option (seed_preset ''Valorant'' 1568 1080) (map_of games k)
      else if k = ''cs2.exe''
      then map_option (seed_preset ''Counter-Strike 2'' 1440 1080) (map_of games k)
      else map_of games k)"
  by (simp add: enforce_presets_def enforce_preset_at enforce_preset_other)

lemma enforce_presets_width_1600:
  assumes "map_of g k = Some p0" and "dict_get p0 ''width'' = JInt 1600"
  shows "\<exists>p''. map_of (enforce_presets g) k = Some p'' \<and> dict_get p'' ''width'' = JInt 1600"
  using assms
  by (auto simp add: enforce_presets_map_of seed_preset_width none_or_eq_def DEFAULT_WIDTH_def)

lemma str_lower_Game: "str_lower ''Game.exe'' = ''game.exe''"
  by code_simp

text \<open>
  C4. The loop of the discovery merge is non-destructive for the profiles that are in the
  store: whatever games were discovered, a profile stored under a key before the loop is
  stored under it afterwards with the same name, width, height, refresh rate and image
  path. Its executable path and origin are unchanged when they held a value that is true
  in Python's sense (not missing, \<^verbatim>\<open>None\<close> or empty); where one of them did change, the
  new value is that of a discovered game with this process key. In particular a stored
  width of 1600 is still 1600 after the whole merge function, preset step included.
\<close>
theorem merge_keeps_existing_profiles:
  assumes "map_of games k = Some p"
  shows "(\<exists>p'. map_of (fst (merge_loop discovered games n)) k = Some p'
          \<and> map_of p' ''name'' = map_of p ''name''
          \<and> map_of p' ''width'' = map_of p ''width''
          \<and> map_of p' ''height'' = map_of p ''height''
          \<and> map_of p' ''refresh_hz'' = map_of p ''refresh_hz''
          \<and> map_of p' ''image_path'' = map_of p ''image_path''
          \<and> (truthy (dict_get p ''exe_path'') \<longrightarrow> map_of p' ''exe_path'' = map_of p ''exe_path'')
          \<and> (truthy (dict_get p ''source'') \<longrightarrow> map_of p' ''source'' = map_of p ''source'')
          \<and> (map_of p' ''exe_path'' \<noteq> map_of p ''exe_path'' \<longrightarrow>
                (\<exists>c \<in> set discovered. str_lower (c_process c) = k
                    \<and> map_of p' ''exe_path'' = Some (JStr (c_exe_path c))))
          \<and> (map_of p' ''source'' \<noteq> map_of p ''source'' \<longrightarrow>
                (\<exists>c \<in> set discovered. str_lower (c_process c) = k
                    \<and> map_of p' ''source'' = Some (JStr (c_source c)))))
       \<and> (dict_get p ''width'' = JInt 1600 \<longrightarrow>
            (\<exists>p''. map_of (fst (merge_discovered_games_into_config discovered games)) k = Some p''
                \<and> dict_get p'' ''width'' = JInt 1600))"
proof
  from merge_loop_existing [OF assms, of discovered n] obtain p' where
    p': "map_of (fst (merge_loop discovered games n)) k = Some p'"
    and oth: "\<And>f. f \<noteq> ''exe_path'' \<Longrightarrow> f \<noteq> ''source'' \<Longrightarrow> map_of p' f = map_of p f"
    and exe: "map_of p' ''exe_path'' = map_of p ''exe_path''
           \<or> (\<not> truthy (dict_get p ''exe_path'')
               \<and> (\<exists>c \<in> set discovered. str_lower (c_process c) = k \<and> c_exe_path c \<noteq> []
                     \<and> map_of p' ''exe_path'' = Some (JStr (c_exe_path c))))"
    and src: "map_of p' ''source'' = map_of p ''source''
           \<or> (\<not> truthy (dict_get p ''source'')
               \<and> (\<exists>c \<in> set discovered. str_lower (c_process c) = k \<and> c_source c \<noteq> []
                     \<and> map_of p' ''source'' = Some (JStr (c_source c))))"
    by blast
  have e1: "truthy (dict_get p ''exe_path'') \<longrightarrow> map_of p' ''exe_path'' = map_of p ''exe_path''"
    using exe by blast
  have s1: "truthy (dict_get p ''source'') \<longrightarrow> map_of p' ''source'' = map_of p ''source''"
    using src by blast
  have e2: "map_of p' ''exe_path'' \<noteq> map_of p ''exe_path'' \<longrightarrow>
                (\<exists>c \<in> set discovered. str_lower (c_process c) = k
                    \<and> map_of p' ''exe_path'' = Some (JStr (c_exe_path c)))"
    using exe by blast
  have s2: "map_of p' ''source'' \<noteq> map_of p ''source'' \<longrightarrow>
                (\<exists>c \<in> set discovered. str_lower (c_process c) = k
                    \<and> map_of p' ''source'' = Some (JStr (c_source c)))"
    using src by blast
  show "\<exists>p'. map_of (fst (merge_loop discovered games n)) k = Some p'
          \<and> map_of p' ''name'' = map_of p ''name''
          \<and> map_of p' ''width'' = map_of p ''width''
          \<and> map_of p' ''height'' = map_of p ''height''
          \<and> map_of p' ''refresh_hz'' = map_of p ''refresh_hz''
          \<and> map_of p' ''image_path'' = map_of p ''image_path''
          \<and> (truthy (dict_get p ''exe_path'') \<longrightarrow> map_of p' ''exe_path'' = map_of p ''exe_path'')
          \<and> (truthy (dict_get p ''source'') \<longrightarrow> map_of p' ''source'' = map_of p ''source'')
          \<and> (map_of p' ''exe_path'' \<noteq> map_of p ''exe_path'' \<longrightarrow>
                (\<exists>c \<in> set discovered. str_lower (c_process c) = k
                    \<and> map_of p' ''exe_path'' = Some (JStr (c_exe_path c))))
          \<and> (map_of p' ''source'' \<noteq> map_of p ''source'' \<longrightarrow>
                (\<exists>c \<in> set discovered. str_lower (c_process c) = k
                    \<and> map_of p' ''source'' = Some (JStr (c_source c))))"
    apply (rule exI [of _ p'])
    apply (intro conjI)
             apply (rule p')
            apply (rule oth; simp)
           apply (rule oth; simp)
          apply (rule oth; simp)
         apply (rule oth; simp)
        apply (rule oth; simp)
       apply (rule e1)
      apply (rule s1)
     apply (rule e2)
    apply (rule s2)
    done
next
  show "dict_get p ''width'' = JInt 1600 \<longrightarrow>
            (\<exists>p''. map_of (fst (merge_discovered_games_into_config discovered games)) k = Some p''
                \<and> dict_get p'' ''width'' = JInt 1600)"
  proof
    assume w: "dict_get p ''width'' = JInt 1600"
    from merge_loop_existing [OF assms, of discovered 0] obtain p0 where
      p0: "map_of (fst (merge_loop discovered games 0)) k = Some p0"
      and oth0: "\<And>f. f \<noteq> ''exe_path'' \<Longrightarrow> f \<noteq> ''source'' \<Longrightarrow> map_of p0 f = map_of p f"
      by blast
    have same: "map_of p0 ''width'' = map_of p ''width''"
      by (rule oth0; simp)
    have "dict_get p0 ''width'' = JInt 1600" using w same by (simp add: dict_get_def)
    from enforce_presets_width_1600 [OF p0 this]
    show "\<exists>p''. map_of (fst (merge_discovered_games_into_config discovered games)) k = Some p''
                \<and> dict_get p'' ''width'' = JInt 1600"
      by (cases "merge_loop discovered games 0")
         (simp add: merge_discovered_games_into_config_def)
  qed
qed

theorem merge_keeps_existing_profiles_witness:
  "map_of [(''game.exe'', edited_profile)] ''game.exe'' = Some edited_profile
   \<and> dict_get edited_profile ''width'' = JInt 1600
   \<and> truthy (dict_get edited_profile ''source'')
   \<and> fst (merge_loop [rediscovered] [(''game.exe'', edited_profile)] 0)
       = [(''game.exe'',
           [(''name'', JStr ''My Game''),
            (''process'', JStr ''game.exe''),
            (''width'', JInt 1600),
            (''height'', JInt 900),
            (''refresh_hz'', JInt 60),
            (''image_path'', JStr ''images/mine.png''),
            (''exe_path'', JStr ''D:/Games/Game.exe''),
            (''source'', JStr ''manual'')])]
   \<and> merge_discovered_games_into_config [rediscovered] [(''game.exe'', edited_profile)]
       = (fst (merge_loop [rediscovered] [(''game.exe'', edited_profile)] 0), 0)"
  using merge_keeps_existing_profiles
          [of "[(''game.exe'', edited_profile)]" "''game.exe''" edited_profile "[rediscovered]" 0]
  by (simp add: edited_profile_def rediscovered_def str_lower_Game backfill_def dict_get_def
      merge_discovered_games_into_config_def enforce_presets_def enforce_preset_def Let_def)




text \<open>
  An edit that the user saves is not safe from the preset step: saving \<^verbatim>\<open>cs2.exe\<close> at
  1920 by 1080 succeeds and stores that resolution, and the next run of the merge, even
  with no game discovered, puts the profile back to 1440 by 1080. The comment above the
  preset step in the source says that changes made by the user later are never
  overwritten.
\<close>
lemma saved_baseline_edit_is_reset:
  "status_msg (save_selected_game (Some ''cs2.exe'') ''1920'' ''1080'' ''144'' default_games)
     = ''Gespeichert.''
   \<and> map_option (\<lambda>p. (dict_get p ''width'', dict_get p ''height''))
        (map_of (games_after
           (save_selected_game (Some ''cs2.exe'') ''1920'' ''1080'' ''144'' default_games))
           ''cs2.exe'')
     = Some (JInt 1920, JInt 1080)
   \<and> saved (save_selected_game (Some ''cs2.exe'') ''1920'' ''1080'' ''144'' default_games)
     = Some (games_after
          (save_selected_game (Some ''cs2.exe'') ''1920'' ''1080'' ''144'' default_games))
   \<and> merge_discovered_games_into_config []
        (games_after
           (save_selected_game (Some ''cs2.exe'') ''1920'' ''1080'' ''144'' default_games))
     = (default_games, 0)"
  by code_simp

subsection \<open>Saving an edit\<close>

lemma save_rejected_not_persisted:
  assumes "parse_int w_var ''Breite'' = Inl e1
           \<or> parse_int h_var (''H'' @ [CHR 0xF6] @ ''he'') = Inl e2
           \<or> parse_refresh r_var = Inl e3"
  shows "saved (save_selected_game selected w_var h_var r_var games) = None"
    and "selected = Some k \<Longrightarrow> map_of games k = Some g \<Longrightarrow>
           games_after (save_selected_game selected w_var h_var r_var games) = games"
  using assms
  by (auto simp add: save_selected_game_def Let_def split: option.splits sum.splits)

lemma parse_int_rejects:
  "parse_int ''abc'' ''Breite'' = Inl (ValueError (msg_invalid_value ''Breite'' ''abc''))"
  "parse_int ''0'' ''Breite'' = Inl (ValueError (msg_invalid_value ''Breite'' ''0''))"
  "parse_int ''-5'' ''Breite'' = Inl (ValueError (msg_invalid_value ''Breite'' ''-5''))"
  "parse_int ''1920'' ''Breite'' = Inr 1920"
  by code_simp+

lemma save_rejected_adds_missing_key:
  "save_selected_game (Some ''new.exe'') ''abc'' ''900'' ''60'' []
     = \<lparr>status_msg = msg_invalid_value ''Breite'' ''abc'',
        games_after = [(''new.exe'', [(''name'', JStr ''new.exe''), (''process'', JStr ''new.exe'')])],
        saved = None\<rparr>"
  by code_simp

text \<open>
  C9. A width or height that is not a positive number is rejected with the message of
  \<^verbatim>\<open>_parse_int\<close>, and nothing is saved. For a negative refresh rate the edit is rejected
  and nothing is saved either, but the exception raised carries no message: with width
  \<^verbatim>\<open>1920\<close>, height \<^verbatim>\<open>1080\<close> and refresh \<^verbatim>\<open>-1\<close> on the stored game \<^verbatim>\<open>cs2.exe\<close>, the text
  put in the status line is the empty string.
\<close>
theorem save_negative_refresh_empty_message:
  "save_selected_game (Some ''cs2.exe'') ''1920'' ''1080'' ''-1'' default_games
     = \<lparr>status_msg = [], games_after = default_games, saved = None\<rparr>"
  by code_simp

subsection \<open>The executable picker\<close>

lemma is_exe_name_game: "is_exe_name ''game.exe''"
  by code_simp

lemma path_join_plain:
  "a \<noteq> [] \<Longrightarrow> last a \<noteq> sep \<Longrightarrow> last a \<noteq> CHR ''/'' \<Longrightarrow> last a \<noteq> CHR '':'' \<Longrightarrow>
     path_join a b = a @ sep # b"
  by (auto simp add: path_join_def sep_def last_conv_nth)

text \<open>
  For a folder path that does not end in a separator, the scenario of the specification
  holds: the executable at \<^verbatim>\<open>sub/deep/deep2/game.exe\<close> is not found with depth limit 2
  and is found with depth limit 3.
\<close>
lemma pick_exe_depth_scenario:
  assumes "folder \<noteq> []" and "last folder \<noteq> sep" and "last folder \<noteq> CHR ''/''"
    and "last folder \<noteq> CHR '':''" and "fs folder = Some deep_tree"
  shows "pick_exe_in_folder fs folder 2 = None"
    and "pick_exe_in_folder fs folder 3
         = Some (folder @ sep # ''sub'' @ sep # ''deep'' @ sep # ''deep2'' @ sep # ''game.exe'')"
proof -
  have j1: "path_join folder ''sub'' = folder @ sep # ''sub''"
    using assms by (simp add: path_join_plain)
  have j2: "path_join (folder @ sep # ''sub'') ''deep'' = folder @ sep # ''sub'' @ sep # ''deep''"
    by (simp add: path_join_def sep_def)
  have j3: "path_join (folder @ sep # ''sub'' @ sep # ''deep'') ''deep2''
            = folder @ sep # ''sub'' @ sep # ''deep'' @ sep # ''deep2''"
    by (simp add: path_join_def sep_def)
  have j4: "path_join (folder @ sep # ''sub'' @ sep # ''deep'' @ sep # ''deep2'') ''game.exe''
            = folder @ sep # ''sub'' @ sep # ''deep'' @ sep # ''deep2'' @ sep # ''game.exe''"
    by (simp add: path_join_def sep_def)
  have d0: "str_count [] sep = 0"
    by (simp add: str_count_def)
  have d1: "str_count (drop (length folder) (folder @ sep # ''sub'')) sep = 1"
    by (simp add: str_count_def sep_def)
  have d2: "str_count (drop (length folder) (folder @ sep # ''sub'' @ sep # ''deep'')) sep = 2"
    by (simp add: str_count_def sep_def)
  have d3: "str_count (drop (length folder)
              (folder @ sep # ''sub'' @ sep # ''deep'' @ sep # ''deep2'')) sep = 3"
    by (simp add: str_count_def sep_def)
  show "pick_exe_in_folder fs folder 2 = None"
    using assms(1,5)
    by (simp add: pick_exe_in_folder_def deep_tree_def j1 j2 [simplified] j3 [simplified]
        d0 d1 [simplified] d2 [simplified] d3 [simplified])
  show "pick_exe_in_folder fs folder 3
         = Some (folder @ sep # ''sub'' @ sep # ''deep'' @ sep # ''deep2'' @ sep # ''game.exe'')"
    using assms(1,5)
    by (simp add: pick_exe_in_folder_def deep_tree_def j1 j2 [simplified] j3 [simplified]
        j4 [simplified] d0 d1 [simplified] d2 [simplified] d3 [simplified] is_exe_name_game)
qed

text \<open>
  C6. The claim holds for a folder path without a trailing separator (lemma
  \<open>pick_exe_depth_scenario\<close>). When the folder is passed with a trailing backslash, here
  \<^verbatim>\<open>C:\G\\<close>, the walk counts one separator less for every directory below it, and the
  executable at \<^verbatim>\<open>sub/deep/deep2/game.exe\<close> is returned already with depth limit 2; it is
  missed only with depth limit 1.
\<close>
theorem pick_exe_trailing_separator:
  "pick_exe_in_folder (deep_fs (''C:'' @ [sep] @ ''G'' @ [sep])) (''C:'' @ [sep] @ ''G'' @ [sep]) 2
     = Some (''C:'' @ [sep] @ ''G'' @ [sep] @ ''sub'' @ [sep] @ ''deep'' @ [sep] @ ''deep2''
             @ [sep] @ ''game.exe'')
   \<and> pick_exe_in_folder (deep_fs (''C:'' @ [sep] @ ''G'' @ [sep])) (''C:'' @ [sep] @ ''G'' @ [sep]) 1
     = None"
  by code_simp

subsection \<open>The registry scanner\<close>

lemma str_lower_append: "str_lower (a @ b) = str_lower a @ str_lower b"
  by (simp add: str_lower_def)

lemma ubisoft_name_facts:
  "str_strip ''Ubisoft Connect'' = ''Ubisoft Connect''"
  "str_lower (''Ubisoft Connect'' @ '' '') = ''ubisoft'' @ '' connect ''"
  by code_simp+

lemma u_icon_facts:
  "u_icon \<noteq> []"
  "str_strip_char (CHR 0x22) (str_strip u_icon) = u_icon"
  "CHR '','' \<in> set u_icon"
  "endswith (str_lower u_icon) ''.exe,0''"
  "py_prefix u_icon (py_rfind (str_lower u_icon) ''.exe'' + 4) = u_exe"
  by code_simp+

lemma u_exe_facts:
  "u_exe \<noteq> []"
  "str_contains (str_lower u_exe) ''.exe''"
  "py_prefix u_exe (py_rfind (str_lower u_exe) ''.exe'' + 4) = u_exe"
  "endswith (str_lower u_exe) ''.exe''"
  "basename u_exe = ''u.exe''"
  by code_simp+

lemma looks_like_u_icon:
  "looks_like_exe_path fs u_icon = (if path_exists fs u_exe then Some u_exe else None)"
  by (simp add: looks_like_exe_path_def Let_def u_icon_facts u_exe_facts)

lemma ubisoft_hay:
  "str_contains (str_lower (''Ubisoft Connect'' @ '' '' @ publisher)) ''ubisoft''"
proof -
  have "str_lower (''Ubisoft Connect'' @ '' '' @ publisher)
        = ''ubisoft'' @ ('' connect '' @ str_lower publisher)"
    using ubisoft_name_facts(2) str_lower_append [of "''Ubisoft Connect'' @ '' ''" publisher]
    by simp
  then show ?thesis by (simp only: str_contains_prefix)
qed

text \<open>
  C7, as amended. For a registry uninstall entry with display name \<^verbatim>\<open>Ubisoft Connect\<close> and
  display icon \<^verbatim>\<open>C:\Games\u.exe,0\<close>, whatever its publisher, install location and
  uninstall string, the scanner produces exactly one candidate, with executable path
  \<^verbatim>\<open>C:\Games\u.exe\<close>, process \<^verbatim>\<open>u.exe\<close> and origin \<^verbatim>\<open>ubisoft\<close>, provided that this path
  exists in the file system. The icon text is always reduced to that path (the suffix
  \<^verbatim>\<open>,0\<close> is cut off); when the path does not exist, the icon yields no executable.
\<close>
theorem registry_ubisoft_candidate:
  "(path_exists fs u_exe \<longrightarrow>
      discover_from_uninstall_entries fs
          [ubisoft_entry publisher install_location uninstall_string]
        = [\<lparr>c_name = ''Ubisoft Connect'', c_exe_path = u_exe, c_process = ''u.exe'',
            c_source = ''ubisoft''\<rparr>])
   \<and> (\<not> path_exists fs u_exe \<longrightarrow> looks_like_exe_path fs u_icon = None)"
proof (intro conjI impI)
  assume ex: "path_exists fs u_exe"
  have hay: "str_contains (str_lower (''Ubisoft Connect'' @ '' '' @ str_strip publisher)) ''ubisoft''"
    by (rule ubisoft_hay)
  have kw: "list_ex (\<lambda>k. str_contains
              (str_lower (''Ubisoft Connect'' @ '' '' @ str_strip publisher)) k) scan_keywords"
    using hay by (simp add: scan_keywords_def)
  have src: "classify_source (str_lower (''Ubisoft Connect'' @ '' '' @ str_strip publisher))
             = ''ubisoft''"
    using hay by (simp add: classify_source_def)
  show "discover_from_uninstall_entries fs
          [ubisoft_entry publisher install_location uninstall_string]
        = [\<lparr>c_name = ''Ubisoft Connect'', c_exe_path = u_exe, c_process = ''u.exe'',
            c_source = ''ubisoft''\<rparr>]"
    using ex kw src
    by (simp add: discover_from_uninstall_entries_def ubisoft_entry_def Let_def
        ubisoft_name_facts(1) looks_like_u_icon opt_or_def u_exe_facts DISCOVERY_SCAN_LIMIT_def)
next
  assume "\<not> path_exists fs u_exe"
  then show "looks_like_exe_path fs u_icon = None"
    by (simp add: looks_like_u_icon)
qed

theorem registry_ubisoft_candidate_witness:
  "path_exists fs_with_u u_exe
   \<and> discover_from_uninstall_entries fs_with_u [ubisoft_entry ''Ubisoft Entertainment'' [] []]
       = [\<lparr>c_name = ''Ubisoft Connect'', c_exe_path = u_exe, c_process = ''u.exe'',
           c_source = ''ubisoft''\<rparr>]
   \<and> \<not> path_exists fs_empty u_exe
   \<and> looks_like_exe_path fs_empty u_icon = None"
  using registry_ubisoft_candidate [of fs_with_u "''Ubisoft Entertainment''" "[]" "[]"]
        registry_ubisoft_candidate [of fs_empty]
  by (simp add: path_exists_def fs_with_u_def fs_empty_def)

text \<open>
  C7 as stated fails: when \<^verbatim>\<open>C:\Games\u.exe\<close> does not exist on disk (and the entry has no
  other usable path), the entry produces no candidate at all.
\<close>
theorem registry_entry_without_file:
  "discover_from_uninstall_entries fs_empty [ubisoft_entry ''Ubisoft Entertainment'' [] []] = []"
  by code_simp

end
